theory Spec2Isabelle
  imports Complex_Main
begin

section \<open>Euler angle conversions of the JEOD Orientation model\<close>

text \<open>
  A shallow embedding of \<^verbatim>\<open>models/utils/orientation/src/euler_angles.cc\<close>.
  A C \<^verbatim>\<open>double\<close> is modelled as a \<open>real\<close>: all statements below are about exact real
  arithmetic, with \<^verbatim>\<open>std::sin\<close>, \<^verbatim>\<open>std::cos\<close>, \<^verbatim>\<open>std::sqrt\<close>, \<^verbatim>\<open>std::fabs\<close>,
  \<^verbatim>\<open>std::asin\<close> and \<^verbatim>\<open>std::acos\<close> read as \<open>sin\<close>, \<open>cos\<close>, \<open>sqrt\<close>, \<open>abs\<close>, \<open>arcsin\<close> and
  \<open>arccos\<close>, and \<^verbatim>\<open>M_PI\<close> as \<open>pi\<close>.
\<close>

subsection \<open>Arrays of three elements\<close>

text \<open>
  \<^verbatim>\<open>double v[3]\<close> is a triple and \<^verbatim>\<open>double m[3][3]\<close> a triple of rows. Every index
  used by the code comes from the table \<open>Euler_info\<close> or is a literal, and is below 3
  (lemma \<open>Euler_info_indices_in_range\<close>).
\<close>

type_synonym vec3 = "real \<times> real \<times> real"
type_synonym mat3 = "vec3 \<times> vec3 \<times> vec3"

fun nth3 :: "'a \<times> 'a \<times> 'a \<Rightarrow> nat \<Rightarrow> 'a" where
  "nth3 (a, b, c) i = (if i = 0 then a else if i = 1 then b else c)"

fun upd3 :: "'a \<times> 'a \<times> 'a \<Rightarrow> nat \<Rightarrow> 'a \<Rightarrow> 'a \<times> 'a \<times> 'a" where
  "upd3 (a, b, c) i v = (if i = 0 then (v, b, c) else if i = 1 then (a, v, c) else (a, b, v))"

text \<open>\<^verbatim>\<open>m[i][j]\<close> read and written.\<close>

definition el :: "mat3 \<Rightarrow> nat \<Rightarrow> nat \<Rightarrow> real" where
  "el m i j = nth3 (nth3 m i) j"

definition set_el :: "mat3 \<Rightarrow> nat \<Rightarrow> nat \<Rightarrow> real \<Rightarrow> mat3" where
  "set_el m i j v = upd3 m i (upd3 (nth3 m i) j v)"

subsection \<open>The sequence enumeration and the descriptor table\<close>

text \<open>
  \<^verbatim>\<open>Orientation::EulerSequence\<close> is a C++ enumeration; a value of that type is an
  integer, and the three operations test it against the first and last enumerator.
  The comments of the table give the order of the enumerators.
\<close>

type_synonym EulerSequence = int

definition EulerXYZ :: EulerSequence where "EulerXYZ = 0"
definition EulerXZY :: EulerSequence where "EulerXZY = 1"
definition EulerYZX :: EulerSequence where "EulerYZX = 2"
definition EulerYXZ :: EulerSequence where "EulerYXZ = 3"
definition EulerZXY :: EulerSequence where "EulerZXY = 4"
definition EulerZYX :: EulerSequence where "EulerZYX = 5"
definition EulerXYX :: EulerSequence where "EulerXYX = 6"
definition EulerXZX :: EulerSequence where "EulerXZX = 7"
definition EulerYZY :: EulerSequence where "EulerYZY = 8"
definition EulerYXY :: EulerSequence where "EulerYXY = 9"
definition EulerZXZ :: EulerSequence where "EulerZXZ = 10"
definition EulerZYZ :: EulerSequence where "EulerZYZ = 11"

record EulerInfo =
  indices :: "nat \<times> nat \<times> nat"
  alternate_x :: nat
  alternate_z :: nat
  is_even_permutation :: bool
  is_aerodynamics_sequence :: bool

definition mk_info :: "nat \<times> nat \<times> nat \<Rightarrow> nat \<Rightarrow> nat \<Rightarrow> bool \<Rightarrow> bool \<Rightarrow> EulerInfo" where
  "mk_info seq altx altz right aero =
     \<lparr>indices = seq, alternate_x = altx, alternate_z = altz,
      is_even_permutation = right, is_aerodynamics_sequence = aero\<rparr>"

definition Euler_info :: "EulerInfo list" where
  "Euler_info = [
     mk_info (0, 1, 2) 0 2 True  True,
     mk_info (0, 2, 1) 0 1 False True,
     mk_info (1, 2, 0) 1 0 True  True,
     mk_info (1, 0, 2) 1 2 False True,
     mk_info (2, 0, 1) 2 1 True  True,
     mk_info (2, 1, 0) 2 0 False True,
     mk_info (0, 1, 0) 2 2 True  False,
     mk_info (0, 2, 0) 1 1 False False,
     mk_info (1, 2, 1) 0 0 True  False,
     mk_info (1, 0, 1) 2 2 False False,
     mk_info (2, 0, 2) 1 1 True  False,
     mk_info (2, 1, 2) 0 0 False False]"

text \<open>\<^verbatim>\<open>Euler_info[euler_sequence]\<close>, used only after the range check.\<close>

definition Euler_info_at :: "EulerSequence \<Rightarrow> EulerInfo" where
  "Euler_info_at euler_sequence = Euler_info ! nat euler_sequence"

subsection \<open>The table as the specification words it\<close>

datatype sequence_class = asymmetric | symmetric

record SequenceDescriptor =
  spec_axes :: "nat list"
  altFirst :: nat
  altLast :: nat
  isEvenPermutation :: bool
  sequence_class :: sequence_class

definition descriptor :: "nat list \<Rightarrow> nat \<Rightarrow> nat \<Rightarrow> bool \<Rightarrow> sequence_class \<Rightarrow> SequenceDescriptor" where
  "descriptor a f l e c =
     \<lparr>spec_axes = a, altFirst = f, altLast = l, isEvenPermutation = e, sequence_class = c\<rparr>"

text \<open>The table of section 4.1 of the specification, row by row.\<close>

definition spec_table :: "SequenceDescriptor list" where
  "spec_table = [
     descriptor [0, 1, 2] 0 2 True  asymmetric,
     descriptor [0, 2, 1] 0 1 False asymmetric,
     descriptor [1, 2, 0] 1 0 True  asymmetric,
     descriptor [1, 0, 2] 1 2 False asymmetric,
     descriptor [2, 0, 1] 2 1 True  asymmetric,
     descriptor [2, 1, 0] 2 0 False asymmetric,
     descriptor [0, 1, 0] 2 2 True  symmetric,
     descriptor [0, 2, 0] 1 1 False symmetric,
     descriptor [1, 2, 1] 0 0 True  symmetric,
     descriptor [1, 0, 1] 2 2 False symmetric,
     descriptor [2, 0, 2] 1 1 True  symmetric,
     descriptor [2, 1, 2] 0 0 False symmetric]"

text \<open>How a table entry of the code reads as a descriptor of the specification.\<close>

definition descriptor_of :: "EulerInfo \<Rightarrow> SequenceDescriptor" where
  "descriptor_of info =
     descriptor [nth3 (indices info) 0, nth3 (indices info) 1, nth3 (indices info) 2]
       (alternate_x info) (alternate_z info) (is_even_permutation info)
       (if is_aerodynamics_sequence info then asymmetric else symmetric)"

text \<open>The order of the enumeration named by the specification.\<close>

definition sequence_order :: "EulerSequence list" where
  "sequence_order = [EulerXYZ, EulerXZY, EulerYZX, EulerYXZ, EulerZXY, EulerZYX,
                     EulerXYX, EulerXZX, EulerYZY, EulerYXY, EulerZXZ, EulerZYZ]"

subsection \<open>Diagnostics\<close>

text \<open>
  Modelled from the spec: \<^verbatim>\<open>MessageHandler::error\<close> and \<^verbatim>\<open>OrientationMessages::invalid_enum\<close>
  are declared in headers that are not among the sources. Section 6 of the specification
  describes the diagnostic sink as a reporting call that takes a category tag and a
  formatted message and is non-fatal: control returns to the caller. The sequence of reports
  issued so far is the state the call changes (the source location is left out).
\<close>

datatype message_code = invalid_enum

datatype report = Error_report message_code string int

type_synonym reports = "report list"

definition MessageHandler_error :: "reports \<Rightarrow> message_code \<Rightarrow> string \<Rightarrow> int \<Rightarrow> reports" where
  "MessageHandler_error msgs c format v = msgs @ [Error_report c format v]"

definition invalid_sequence_format :: string where
  "invalid_sequence_format =
     ''The euler_sequence data member has not been set or is invalid; value=%d''"

subsection \<open>The matrix and quaternion utilities\<close>

text \<open>
  Modelled from the spec: \<^verbatim>\<open>Matrix3x3::initialize\<close> and \<^verbatim>\<open>Matrix3x3::product\<close> come from
  \<^verbatim>\<open>utils/math/include/matrix3x3.hh\<close>, which is not among the sources. Section 6 of the
  specification: \<open>zero(M)\<close>, and \<open>product(A, B) -> C\<close> with the standard row-major
  multiplication \<open>C = A\<cdot>B\<close>.
\<close>

definition mat3_of :: "(nat \<Rightarrow> nat \<Rightarrow> real) \<Rightarrow> mat3" where
  "mat3_of f = ((f 0 0, f 0 1, f 0 2), (f 1 0, f 1 1, f 1 2), (f 2 0, f 2 1, f 2 2))"

definition Matrix3x3_initialize :: mat3 where
  "Matrix3x3_initialize = ((0, 0, 0), (0, 0, 0), (0, 0, 0))"

definition Matrix3x3_product :: "mat3 \<Rightarrow> mat3 \<Rightarrow> mat3" where
  "Matrix3x3_product mat_left mat_right =
     mat3_of (\<lambda>i j. el mat_left i 0 * el mat_right 0 j
                  + el mat_left i 1 * el mat_right 1 j
                  + el mat_left i 2 * el mat_right 2 j)"

text \<open>
  Modelled from the spec: the class \<^verbatim>\<open>Quaternion\<close> (its default constructor,
  \<^verbatim>\<open>multiply\<close> and \<^verbatim>\<open>normalize\<close>) is not among the sources. Section 6 of the
  specification: \<open>multiply(lhs, rhs) -> result\<close> with \<open>result = lhs\<cdot>rhs\<close> in the Hamilton
  convention; \<open>normalize(q)\<close> divides by the norm and is a no-op if the norm is zero.
  Section 4.2: the vector components that a stage does not set are zero. The scalar part
  of a default quaternion is never read by this code (every stage overwrites it).
\<close>

record Quaternion =
  scalar :: real
  vector :: vec3

definition Quaternion_default :: Quaternion where
  "Quaternion_default = \<lparr>scalar = 1, vector = (0, 0, 0)\<rparr>"

definition Quaternion_multiply :: "Quaternion \<Rightarrow> Quaternion \<Rightarrow> Quaternion" where
  "Quaternion_multiply lhs rhs =
     (case (vector lhs, vector rhs) of ((a1, a2, a3), (b1, b2, b3)) \<Rightarrow>
        \<lparr>scalar = scalar lhs * scalar rhs - (a1 * b1 + a2 * b2 + a3 * b3),
         vector = (scalar lhs * b1 + scalar rhs * a1 + (a2 * b3 - a3 * b2),
                   scalar lhs * b2 + scalar rhs * a2 + (a3 * b1 - a1 * b3),
                   scalar lhs * b3 + scalar rhs * a3 + (a1 * b2 - a2 * b1))\<rparr>)"

definition norm_sq :: "Quaternion \<Rightarrow> real" where
  "norm_sq q = (case vector q of (v1, v2, v3) \<Rightarrow> scalar q * scalar q + v1 * v1 + v2 * v2 + v3 * v3)"

definition Quaternion_norm :: "Quaternion \<Rightarrow> real" where
  "Quaternion_norm q = sqrt (norm_sq q)"

definition Quaternion_normalize :: "Quaternion \<Rightarrow> Quaternion" where
  "Quaternion_normalize q =
     (let n = Quaternion_norm q in
      if n = 0 then q
      else (case vector q of (v1, v2, v3) \<Rightarrow>
              \<lparr>scalar = scalar q / n, vector = (v1 / n, v2 / n, v3 / n)\<rparr>))"

subsection \<open>Angles to quaternion\<close>

text \<open>The body of the loop over \<open>ii\<close>: the simple quaternion of stage \<open>ii\<close>.\<close>

definition quaternion_stage :: "nat \<times> nat \<times> nat \<Rightarrow> vec3 \<Rightarrow> nat \<Rightarrow> Quaternion" where
  "quaternion_stage axes euler_angles ii =
     (let htheta = 0.5 * nth3 euler_angles ii;
          cosht = cos htheta;
          sinht = sin htheta;
          q = Quaternion_default\<lparr>scalar := cosht\<rparr>
      in q\<lparr>vector := upd3 (vector q) (nth3 axes ii) (- sinht)\<rparr>)"

text \<open>
  The three operations write their result through an output argument and report through
  the message handler: the state is the pair of the output argument and the reports.
\<close>

definition compute_quaternion_from_euler_angles ::
  "EulerSequence \<Rightarrow> vec3 \<Rightarrow> Quaternion \<times> reports \<Rightarrow> Quaternion \<times> reports" where
  "compute_quaternion_from_euler_angles euler_sequence euler_angles st =
     (case st of (quat, msgs) \<Rightarrow>
        if euler_sequence < EulerXYZ \<or> euler_sequence > EulerZYZ
        then (quat, MessageHandler_error msgs invalid_enum invalid_sequence_format euler_sequence)
        else
          (let axes = indices (Euler_info_at euler_sequence);
               q0 = quaternion_stage axes euler_angles 0;
               q1 = quaternion_stage axes euler_angles 1;
               q2 = quaternion_stage axes euler_angles 2;
               q21 = Quaternion_multiply q2 q1;
               quat' = Quaternion_multiply q21 q0
           in (Quaternion_normalize quat', msgs)))"

subsection \<open>Angles to matrix\<close>

text \<open>
  The argument \<^verbatim>\<open>trans\<close> of the source is written \<open>transm\<close> (\<open>trans\<close> is a constant
  of HOL); \<open>msgs\<close> are the reports issued before the call.
\<close>

text \<open>The body of the loop over \<open>ii\<close>: the simple transformation matrix of stage \<open>ii\<close>.\<close>

definition matrix_stage :: "nat \<times> nat \<times> nat \<Rightarrow> vec3 \<Rightarrow> nat \<Rightarrow> mat3" where
  "matrix_stage axes euler_angles ii =
     (let m = Matrix3x3_initialize;
          sin_theta = sin (nth3 euler_angles ii);
          cos_theta = cos (nth3 euler_angles ii)
      in if nth3 axes ii = 0 then
           set_el (set_el (set_el (set_el (set_el m 0 0 1)
             1 1 cos_theta) 1 2 sin_theta) 2 1 (- sin_theta)) 2 2 cos_theta
         else if nth3 axes ii = 1 then
           set_el (set_el (set_el (set_el (set_el m 1 1 1)
             0 0 cos_theta) 0 2 (- sin_theta)) 2 0 sin_theta) 2 2 cos_theta
         else if nth3 axes ii = 2 then
           set_el (set_el (set_el (set_el (set_el m 2 2 1)
             0 0 cos_theta) 0 1 sin_theta) 1 0 (- sin_theta)) 1 1 cos_theta
         else m)"

definition compute_matrix_from_euler_angles ::
  "EulerSequence \<Rightarrow> vec3 \<Rightarrow> mat3 \<times> reports \<Rightarrow> mat3 \<times> reports" where
  "compute_matrix_from_euler_angles euler_sequence euler_angles st =
     (case st of (transm, msgs) \<Rightarrow>
        if euler_sequence < EulerXYZ \<or> euler_sequence > EulerZYZ
        then (transm, MessageHandler_error msgs invalid_enum invalid_sequence_format euler_sequence)
        else
          (let axes = indices (Euler_info_at euler_sequence);
               m0 = matrix_stage axes euler_angles 0;
               m1 = matrix_stage axes euler_angles 1;
               m2 = matrix_stage axes euler_angles 2;
               m21 = Matrix3x3_product m2 m1
           in (Matrix3x3_product m21 m0, msgs)))"

subsection \<open>Matrix to angles\<close>

text \<open>
  \<^verbatim>\<open>std::atan2\<close> on real arguments: the angle in \<open>(-pi, pi]\<close> of the point \<open>(x, y)\<close>,
  and 0 at the origin (the reals have no signed zero).
\<close>

definition atan2 :: "real \<Rightarrow> real \<Rightarrow> real" where
  "atan2 y x =
     (if 0 < x then arctan (y / x)
      else if x < 0 then (if 0 \<le> y then arctan (y / x) + pi else arctan (y / x) - pi)
      else if 0 < y then pi / 2
      else if y < 0 then - (pi / 2)
      else 0)"

text \<open>
  \<^verbatim>\<open>Orientation::gimbal_lock_threshold\<close> is a static variable initialised to \<^verbatim>\<open>1e-13\<close>;
  nothing in this file assigns to it, and it is read here at its initial value.
\<close>

definition gimbal_lock_threshold :: real where
  "gimbal_lock_threshold = 1 / 10 ^ 13"

text \<open>The key elements read from the matrix (lines 342 to 349).\<close>

definition theta_val_elem :: "EulerInfo \<Rightarrow> mat3 \<Rightarrow> real" where
  "theta_val_elem info transm = el transm (nth3 (indices info) 2) (nth3 (indices info) 0)"

definition sin_phi_elem :: "EulerInfo \<Rightarrow> mat3 \<Rightarrow> real" where
  "sin_phi_elem info transm = el transm (nth3 (indices info) 2) (nth3 (indices info) 1)"

definition cos_phi_elem :: "EulerInfo \<Rightarrow> mat3 \<Rightarrow> real" where
  "cos_phi_elem info transm = el transm (nth3 (indices info) 2) (alternate_z info)"

definition sin_psi_elem :: "EulerInfo \<Rightarrow> mat3 \<Rightarrow> real" where
  "sin_psi_elem info transm = el transm (nth3 (indices info) 1) (nth3 (indices info) 0)"

definition cos_psi_elem :: "EulerInfo \<Rightarrow> mat3 \<Rightarrow> real" where
  "cos_psi_elem info transm = el transm (alternate_x info) (nth3 (indices info) 0)"

text \<open>The alternative theta values (lines 352 to 354).\<close>

definition alt_theta_val1 :: "EulerInfo \<Rightarrow> mat3 \<Rightarrow> real" where
  "alt_theta_val1 info transm =
     sqrt (sin_phi_elem info transm * sin_phi_elem info transm
           + cos_phi_elem info transm * cos_phi_elem info transm)"

definition alt_theta_val2 :: "EulerInfo \<Rightarrow> mat3 \<Rightarrow> real" where
  "alt_theta_val2 info transm =
     sqrt (sin_psi_elem info transm * sin_psi_elem info transm
           + cos_psi_elem info transm * cos_psi_elem info transm)"

definition alt_theta_val :: "EulerInfo \<Rightarrow> mat3 \<Rightarrow> real" where
  "alt_theta_val info transm = 0.5 * (alt_theta_val1 info transm + alt_theta_val2 info transm)"

text \<open>\<open>theta_val\<close> after the negation for odd aerodynamics sequences (lines 358 to 360).\<close>

definition theta_val :: "EulerInfo \<Rightarrow> mat3 \<Rightarrow> real" where
  "theta_val info transm =
     (if is_aerodynamics_sequence info \<and> \<not> is_even_permutation info
      then - theta_val_elem info transm else theta_val_elem info transm)"

text \<open>Compute theta (lines 364 to 391).\<close>

definition compute_theta :: "EulerInfo \<Rightarrow> mat3 \<Rightarrow> real" where
  "compute_theta info transm =
     (if alt_theta_val info transm < \<bar>theta_val info transm\<bar> then
        (let alt_theta = arcsin (alt_theta_val info transm) in
         if is_aerodynamics_sequence info then
           (if theta_val info transm < 0 then - 0.5 * pi + alt_theta else 0.5 * pi - alt_theta)
         else
           (if theta_val info transm < 0 then pi - alt_theta else alt_theta))
      else
        (if is_aerodynamics_sequence info then arcsin (theta_val info transm)
         else arccos (theta_val info transm)))"

text \<open>Phi and psi when gimbal lock is not present (lines 407 to 432).\<close>

definition regular_phi_psi :: "EulerInfo \<Rightarrow> mat3 \<Rightarrow> real \<times> real" where
  "regular_phi_psi info transm =
     (let sin_phi = sin_phi_elem info transm;
          cos_phi = cos_phi_elem info transm;
          sin_psi = sin_psi_elem info transm;
          cos_psi = cos_psi_elem info transm
      in if is_aerodynamics_sequence info then
           (if is_even_permutation info
            then (atan2 (- sin_phi) cos_phi, atan2 (- sin_psi) cos_psi)
            else (atan2 sin_phi cos_phi, atan2 sin_psi cos_psi))
         else
           (if is_even_permutation info
            then (atan2 sin_phi (- cos_phi), atan2 sin_psi cos_psi)
            else (atan2 sin_phi cos_phi, atan2 sin_psi (- cos_psi))))"

text \<open>Phi and psi in a gimbal lock situation (lines 442 to 452).\<close>

definition locked_phi_psi :: "EulerInfo \<Rightarrow> mat3 \<Rightarrow> real \<times> real" where
  "locked_phi_psi info transm =
     (let sin_phi = el transm (nth3 (indices info) 1) (alternate_z info);
          cos_phi = el transm (nth3 (indices info) 1) (nth3 (indices info) 1);
          sin_phi = (if \<not> is_even_permutation info then - sin_phi else sin_phi)
      in (atan2 sin_phi cos_phi, 0))"

text \<open>The angles \<open>(phi, theta, psi)\<close> saved at lines 456 to 458.\<close>

definition extract_angles :: "EulerInfo \<Rightarrow> mat3 \<Rightarrow> vec3" where
  "extract_angles info transm =
     (let theta = compute_theta info transm;
          (phi, psi) = (if alt_theta_val info transm > gimbal_lock_threshold
                        then regular_phi_psi info transm
                        else locked_phi_psi info transm)
      in (phi, theta, psi))"

definition compute_euler_angles_from_matrix ::
  "mat3 \<Rightarrow> EulerSequence \<Rightarrow> vec3 \<times> reports \<Rightarrow> vec3 \<times> reports" where
  "compute_euler_angles_from_matrix transm euler_sequence st =
     (case st of (euler_angles, msgs) \<Rightarrow>
        if euler_sequence < EulerXYZ \<or> euler_sequence > EulerZYZ
        then (euler_angles,
              MessageHandler_error msgs invalid_enum invalid_sequence_format euler_sequence)
        else (extract_angles (Euler_info_at euler_sequence) transm, msgs))"

subsection \<open>The source of theta as the specification words it\<close>

text \<open>
  Section 4.4, step 4 of the specification names two ways to derive theta from the two
  source values \<open>theta_val\<close> and \<open>r\<close>: directly, by \<open>asin (theta_val)\<close> (asymmetric) or
  \<open>acos (theta_val)\<close> (symmetric); or from \<open>asin r\<close> mapped into the quadrant given by the
  sign of \<open>theta_val\<close> and the class.
\<close>

definition theta_direct :: "bool \<Rightarrow> real \<Rightarrow> real" where
  "theta_direct asymm tv = (if asymm then arcsin tv else arccos tv)"

definition theta_complementary :: "bool \<Rightarrow> real \<Rightarrow> real \<Rightarrow> real" where
  "theta_complementary asymm tv r =
     (if asymm then (if tv < 0 then - (pi / 2) + arcsin r else pi / 2 - arcsin r)
      else (if tv < 0 then pi - arcsin r else arcsin r))"

text \<open>
  The selection as the specification states it: the inverse trigonometric function is
  applied to whichever of the two source values has the larger magnitude.
\<close>

definition theta_from_larger_source :: "bool \<Rightarrow> real \<Rightarrow> real \<Rightarrow> real" where
  "theta_from_larger_source asymm tv r =
     (if \<bar>r\<bar> < \<bar>tv\<bar> then theta_direct asymm tv else theta_complementary asymm tv r)"

text \<open>
  The selection with the two sources exchanged: the inverse trigonometric function is
  applied to whichever of the two source values has the smaller magnitude, and to
  \<open>theta_val\<close> when the magnitudes are equal.
\<close>

definition theta_from_smaller_source :: "bool \<Rightarrow> real \<Rightarrow> real \<Rightarrow> real" where
  "theta_from_smaller_source asymm tv r =
     (if \<bar>r\<bar> < \<bar>tv\<bar> then theta_complementary asymm tv r else theta_direct asymm tv)"

section \<open>Properties\<close>

lemmas Euler_enum_defs =
  EulerXYZ_def EulerXZY_def EulerYZX_def EulerYXZ_def EulerZXY_def EulerZYX_def
  EulerXYX_def EulerXZX_def EulerYZY_def EulerYXY_def EulerZXZ_def EulerZYZ_def

lemma Euler_info_length: "length Euler_info = 12"
  by (simp add: Euler_info_def)

text \<open>
  Claim C7. The descriptor table has exactly twelve entries; looked up through the
  enumerators in the order XYZ, XZY, YZX, YXZ, ZXY, ZYX, XYX, XZX, YZY, YXY, ZXZ, ZYZ
  (which are the indices 0 to 11) its entries are, field by field, the rows of the table
  of section 4.1 of the specification.
\<close>

theorem Euler_info_matches_spec_table:
  "length Euler_info = 12
   \<and> sequence_order = [0, 1, 2, 3, 4, 5, 6, 7, 8, 9, 10, 11]
   \<and> map (\<lambda>s. descriptor_of (Euler_info_at s)) sequence_order = spec_table
   \<and> map descriptor_of Euler_info = spec_table"
  by (simp add: Euler_info_def sequence_order_def Euler_enum_defs Euler_info_at_def
      spec_table_def descriptor_of_def mk_info_def descriptor_def)


subsection \<open>Helper facts\<close>

lemma Euler_info_indices_in_range:
  "info \<in> set Euler_info \<Longrightarrow>
     nth3 (indices info) 0 < 3 \<and> nth3 (indices info) 1 < 3 \<and> nth3 (indices info) 2 < 3
     \<and> alternate_x info < 3 \<and> alternate_z info < 3"
  by (auto simp add: Euler_info_def mk_info_def)

lemma info_XYZ: "Euler_info_at 0 = mk_info (0, 1, 2) 0 2 True True"
  by (simp add: Euler_info_at_def Euler_info_def)

lemma compute_euler_angles_valid:
  "0 \<le> s \<Longrightarrow> s \<le> 11 \<Longrightarrow>
   compute_euler_angles_from_matrix m s (out, msgs) = (extract_angles (Euler_info_at s) m, msgs)"
  by (simp add: compute_euler_angles_from_matrix_def Euler_enum_defs)

lemma alt_theta_val_nonneg: "0 \<le> alt_theta_val info m"
  by (simp add: alt_theta_val_def alt_theta_val1_def alt_theta_val2_def)

subsection \<open>Invalid sequence identifiers\<close>

text \<open>
  Claim C3. For a sequence identifier outside \<open>[0, 11]\<close>, each of the three operations
  leaves its output argument at its pre-call value, issues exactly one diagnostic report
  (the reports after the call are the reports before it followed by one invalid-enumeration
  report carrying the identifier), and returns.
\<close>

theorem invalid_sequence_atomic:
  "euler_sequence < 0 \<or> 11 < euler_sequence \<Longrightarrow>
     compute_quaternion_from_euler_angles euler_sequence euler_angles (quat, msgs)
       = (quat, msgs @ [Error_report invalid_enum invalid_sequence_format euler_sequence])
   \<and> compute_matrix_from_euler_angles euler_sequence euler_angles (transm, msgs)
       = (transm, msgs @ [Error_report invalid_enum invalid_sequence_format euler_sequence])
   \<and> compute_euler_angles_from_matrix transm euler_sequence (angles_out, msgs)
       = (angles_out, msgs @ [Error_report invalid_enum invalid_sequence_format euler_sequence])"
  by (auto simp add: compute_quaternion_from_euler_angles_def
      compute_matrix_from_euler_angles_def compute_euler_angles_from_matrix_def
      MessageHandler_error_def Euler_enum_defs)

theorem invalid_sequence_atomic_witness:
  "((12::int) < 0 \<or> 11 < (12::int))
   \<and> compute_quaternion_from_euler_angles 12 (1, 2, 3) (Quaternion_default, [])
       = (Quaternion_default, [Error_report invalid_enum invalid_sequence_format 12])
   \<and> compute_matrix_from_euler_angles 12 (1, 2, 3) (Matrix3x3_initialize, [])
       = (Matrix3x3_initialize, [Error_report invalid_enum invalid_sequence_format 12])
   \<and> compute_euler_angles_from_matrix Matrix3x3_initialize 12 ((7, 8, 9), [])
       = ((7, 8, 9), [Error_report invalid_enum invalid_sequence_format 12])"
  using invalid_sequence_atomic
    [of 12 "(1, 2, 3)" Quaternion_default "[]" Matrix3x3_initialize "(7, 8, 9)"]
  by simp

subsection \<open>The gimbal lock branch\<close>

text \<open>
  Claim C2. For every valid sequence and any matrix, with
  \<open>r = (sqrt (sin_phi\<^sup>2 + cos_phi\<^sup>2) + sqrt (sin_psi\<^sup>2 + cos_psi\<^sup>2)) / 2\<close> computed from the
  elements \<open>M[axes[2]][axes[1]]\<close>, \<open>M[axes[2]][altLast]\<close>, \<open>M[axes[1]][axes[0]]\<close> and
  \<open>M[altFirst][axes[0]]\<close>: if \<open>r \<le> 1e-13\<close> the extraction returns \<open>psi = 0\<close> and
  \<open>phi = atan2 s (M[axes[1]][axes[1]])\<close>, where \<open>s = M[axes[1]][altLast]\<close>, negated for an odd
  permutation; and if not, it returns the phi and psi of the regular branch.
\<close>

theorem gimbal_lock_branch:
  assumes "0 \<le> s" "s \<le> 11"
  shows "alt_theta_val (Euler_info_at s) m
           = (sqrt ((el m (nth3 (indices (Euler_info_at s)) 2) (nth3 (indices (Euler_info_at s)) 1))\<^sup>2
                    + (el m (nth3 (indices (Euler_info_at s)) 2) (alternate_z (Euler_info_at s)))\<^sup>2)
              + sqrt ((el m (nth3 (indices (Euler_info_at s)) 1) (nth3 (indices (Euler_info_at s)) 0))\<^sup>2
                    + (el m (alternate_x (Euler_info_at s)) (nth3 (indices (Euler_info_at s)) 0))\<^sup>2)) / 2
       \<and> (alt_theta_val (Euler_info_at s) m \<le> 1 / 10 ^ 13 \<longrightarrow>
           fst (compute_euler_angles_from_matrix m s (out, msgs))
             = (atan2 (if is_even_permutation (Euler_info_at s)
                       then el m (nth3 (indices (Euler_info_at s)) 1) (alternate_z (Euler_info_at s))
                       else - el m (nth3 (indices (Euler_info_at s)) 1) (alternate_z (Euler_info_at s)))
                      (el m (nth3 (indices (Euler_info_at s)) 1) (nth3 (indices (Euler_info_at s)) 1)),
                compute_theta (Euler_info_at s) m, 0))
       \<and> (\<not> alt_theta_val (Euler_info_at s) m \<le> 1 / 10 ^ 13 \<longrightarrow>
           fst (compute_euler_angles_from_matrix m s (out, msgs))
             = (fst (regular_phi_psi (Euler_info_at s) m), compute_theta (Euler_info_at s) m,
                snd (regular_phi_psi (Euler_info_at s) m)))"
proof -
  have r: "alt_theta_val (Euler_info_at s) m
           = (sqrt ((el m (nth3 (indices (Euler_info_at s)) 2) (nth3 (indices (Euler_info_at s)) 1))\<^sup>2
                    + (el m (nth3 (indices (Euler_info_at s)) 2) (alternate_z (Euler_info_at s)))\<^sup>2)
              + sqrt ((el m (nth3 (indices (Euler_info_at s)) 1) (nth3 (indices (Euler_info_at s)) 0))\<^sup>2
                    + (el m (alternate_x (Euler_info_at s)) (nth3 (indices (Euler_info_at s)) 0))\<^sup>2)) / 2"
    by (simp add: alt_theta_val_def alt_theta_val1_def alt_theta_val2_def sin_phi_elem_def
        cos_phi_elem_def sin_psi_elem_def cos_psi_elem_def power2_eq_square)
  have b: "(alt_theta_val (Euler_info_at s) m \<le> 1 / 10 ^ 13 \<longrightarrow>
           fst (compute_euler_angles_from_matrix m s (out, msgs))
             = (atan2 (if is_even_permutation (Euler_info_at s)
                       then el m (nth3 (indices (Euler_info_at s)) 1) (alternate_z (Euler_info_at s))
                       else - el m (nth3 (indices (Euler_info_at s)) 1) (alternate_z (Euler_info_at s)))
                      (el m (nth3 (indices (Euler_info_at s)) 1) (nth3 (indices (Euler_info_at s)) 1)),
                compute_theta (Euler_info_at s) m, 0))
       \<and> (\<not> alt_theta_val (Euler_info_at s) m \<le> 1 / 10 ^ 13 \<longrightarrow>
           fst (compute_euler_angles_from_matrix m s (out, msgs))
             = (fst (regular_phi_psi (Euler_info_at s) m), compute_theta (Euler_info_at s) m,
                snd (regular_phi_psi (Euler_info_at s) m)))"
    using assms
    by (simp add: compute_euler_angles_valid extract_angles_def gimbal_lock_threshold_def
        locked_phi_psi_def Let_def split: prod.split)
  from r b show ?thesis by (rule conjI)
qed

theorem gimbal_lock_branch_witness:
  "(0::int) \<le> 0 \<and> (0::int) \<le> 11
   \<and> alt_theta_val (Euler_info_at 0) ((0, 0, -1), (0, 1, 0), (1, 0, 0)) \<le> 1 / 10 ^ 13
   \<and> fst (compute_euler_angles_from_matrix ((0, 0, -1), (0, 1, 0), (1, 0, 0)) 0 ((7, 8, 9), []))
       = (0, compute_theta (Euler_info_at 0) ((0, 0, -1), (0, 1, 0), (1, 0, 0)), 0)"
  using gimbal_lock_branch [of 0 "((0, 0, -1), (0, 1, 0), (1, 0, 0))" "(7, 8, 9)" "[]"]
  by (simp add: info_XYZ mk_info_def el_def atan2_def)

subsection \<open>The source of theta\<close>

text \<open>
  A matrix on which the two sources give different angles: for X-Y-Z its \<open>theta_val\<close> is
  0.9 and its \<open>r\<close> is 0.1.
\<close>

lemma sources_differ: "pi / 2 - arcsin (1 / 10) \<noteq> arcsin (9 / 10)"
proof
  assume e: "pi / 2 - arcsin (1 / 10) = arcsin (9 / 10)"
  have "sin (pi / 2 - arcsin (1 / 10)) = cos (arcsin (1 / 10))"
    by (simp add: sin_diff)
  also have "\<dots> = sqrt (1 - (1 / 10)\<^sup>2)" by (rule cos_arcsin) simp_all
  also have "\<dots> = sqrt (99 / 100)" by (simp add: power2_eq_square)
  finally have "sin (arcsin (9 / 10)) = sqrt (99 / 100)" unfolding e .
  moreover have "sin (arcsin (9 / 10)) = 9 / 10" by simp
  moreover have "sqrt (81 / 100) = 9 / 10" using real_sqrt_abs2 [of "9 / 10"] by simp
  ultimately have "sqrt (99 / 100) = sqrt (81 / 100)" by (simp only:)
  then have "(99 / 100 :: real) = 81 / 100" by (rule real_sqrt_eq_iff [THEN iffD1])
  then show False by simp
qed

lemma sqrt_hundredth: "sqrt (1 / 100) = 1 / 10"
  using real_sqrt_abs2 [of "1 / 10"] by simp

lemma separating_matrix:
  "theta_val (Euler_info_at 0) ((1 / 10, 0, 0), (0, 1, 0), (9 / 10, 0, 1 / 10)) = 9 / 10"
  "alt_theta_val (Euler_info_at 0) ((1 / 10, 0, 0), (0, 1, 0), (9 / 10, 0, 1 / 10)) = 1 / 10"
  "is_aerodynamics_sequence (Euler_info_at 0)"
  by (simp_all add: info_XYZ mk_info_def theta_val_def theta_val_elem_def alt_theta_val_def
      alt_theta_val1_def alt_theta_val2_def sin_phi_elem_def cos_phi_elem_def sin_psi_elem_def
      cos_psi_elem_def el_def sqrt_hundredth)

text \<open>
  Claim C4, as stated: \<open>compute_theta\<close> always applies the inverse trigonometric function to
  whichever of \<open>\<bar>theta_val\<bar>\<close> and \<open>r = alt_theta_val\<close> has the larger magnitude. This fails:
  for X-Y-Z and a matrix with \<open>theta_val = 0.9\<close> and \<open>r = 0.1\<close>, the middle angle that
  \<open>compute_euler_angles_from_matrix\<close> returns is \<open>pi/2 - asin 0.1\<close>, from the smaller source,
  and not \<open>asin 0.9\<close>, which the larger source gives.
\<close>

theorem theta_source_counterexample:
  "compute_theta (Euler_info_at EulerXYZ) ((1 / 10, 0, 0), (0, 1, 0), (9 / 10, 0, 1 / 10))
     = pi / 2 - arcsin (1 / 10)
   \<and> nth3 (fst (compute_euler_angles_from_matrix
                  ((1 / 10, 0, 0), (0, 1, 0), (9 / 10, 0, 1 / 10)) EulerXYZ ((0, 0, 0), []))) 1
       = pi / 2 - arcsin (1 / 10)
   \<and> theta_from_larger_source
         (is_aerodynamics_sequence (Euler_info_at EulerXYZ))
         (theta_val (Euler_info_at EulerXYZ) ((1 / 10, 0, 0), (0, 1, 0), (9 / 10, 0, 1 / 10)))
         (alt_theta_val (Euler_info_at EulerXYZ) ((1 / 10, 0, 0), (0, 1, 0), (9 / 10, 0, 1 / 10)))
       = arcsin (9 / 10)
   \<and> compute_theta (Euler_info_at EulerXYZ) ((1 / 10, 0, 0), (0, 1, 0), (9 / 10, 0, 1 / 10))
       \<noteq> theta_from_larger_source
         (is_aerodynamics_sequence (Euler_info_at EulerXYZ))
         (theta_val (Euler_info_at EulerXYZ) ((1 / 10, 0, 0), (0, 1, 0), (9 / 10, 0, 1 / 10)))
         (alt_theta_val (Euler_info_at EulerXYZ) ((1 / 10, 0, 0), (0, 1, 0), (9 / 10, 0, 1 / 10)))"
proof -
  let ?m = "((1 / 10, 0, 0), (0, 1, 0), (9 / 10, 0, 1 / 10)) :: mat3"
  have c: "compute_theta (Euler_info_at 0) ?m = pi / 2 - arcsin (1 / 10)"
    by (simp add: compute_theta_def separating_matrix Let_def)
  have e: "nth3 (fst (compute_euler_angles_from_matrix ?m 0 ((0, 0, 0), []))) 1
           = compute_theta (Euler_info_at 0) ?m"
    by (simp add: compute_euler_angles_valid extract_angles_def split: prod.split)
  have l: "theta_from_larger_source (is_aerodynamics_sequence (Euler_info_at 0))
             (theta_val (Euler_info_at 0) ?m) (alt_theta_val (Euler_info_at 0) ?m)
           = arcsin (9 / 10)"
    by (simp add: separating_matrix theta_from_larger_source_def theta_direct_def)
  show ?thesis unfolding EulerXYZ_def e l c using sources_differ by simp
qed

text \<open>
  Claim C4, amended: for every valid sequence and any matrix, the middle angle computed by
  \<open>compute_theta\<close> and returned by \<open>compute_euler_angles_from_matrix\<close> is derived by applying
  the inverse trigonometric function to whichever of \<open>theta_val\<close> and \<open>r = alt_theta_val\<close> has
  the smaller magnitude: \<open>asin r\<close>, mapped into the quadrant, when \<open>r < \<bar>theta_val\<bar>\<close>, and
  \<open>asin\<close> or \<open>acos\<close> of \<open>theta_val\<close> otherwise.
\<close>

theorem theta_source_smaller:
  assumes "0 \<le> s" "s \<le> 11"
  shows "compute_theta (Euler_info_at s) m
           = theta_from_smaller_source (is_aerodynamics_sequence (Euler_info_at s))
               (theta_val (Euler_info_at s) m) (alt_theta_val (Euler_info_at s) m)
       \<and> nth3 (fst (compute_euler_angles_from_matrix m s (out, msgs))) 1
           = theta_from_smaller_source (is_aerodynamics_sequence (Euler_info_at s))
               (theta_val (Euler_info_at s) m) (alt_theta_val (Euler_info_at s) m)"
proof -
  let ?i = "Euler_info_at s"
  have r: "\<bar>alt_theta_val ?i m\<bar> = alt_theta_val ?i m"
    using alt_theta_val_nonneg [of ?i m] by simp
  have c: "compute_theta ?i m
           = theta_from_smaller_source (is_aerodynamics_sequence ?i) (theta_val ?i m)
               (alt_theta_val ?i m)"
    by (simp add: compute_theta_def theta_from_smaller_source_def theta_complementary_def
        theta_direct_def r Let_def)
  have e: "nth3 (fst (compute_euler_angles_from_matrix m s (out, msgs))) 1 = compute_theta ?i m"
    using assms by (simp add: compute_euler_angles_valid extract_angles_def split: prod.split)
  show ?thesis unfolding e using c by simp
qed

theorem theta_source_smaller_witness:
  "(0::int) \<le> 0 \<and> (0::int) \<le> 11
   \<and> alt_theta_val (Euler_info_at 0) ((1 / 10, 0, 0), (0, 1, 0), (9 / 10, 0, 1 / 10))
       < \<bar>theta_val (Euler_info_at 0) ((1 / 10, 0, 0), (0, 1, 0), (9 / 10, 0, 1 / 10))\<bar>
   \<and> nth3 (fst (compute_euler_angles_from_matrix
                  ((1 / 10, 0, 0), (0, 1, 0), (9 / 10, 0, 1 / 10)) 0 ((0, 0, 0), []))) 1
       = pi / 2 - arcsin (1 / 10)"
  using theta_source_smaller [of 0 "((1 / 10, 0, 0), (0, 1, 0), (9 / 10, 0, 1 / 10))" "(0, 0, 0)" "[]"]
  by (simp add: separating_matrix theta_from_smaller_source_def theta_complementary_def)

subsection \<open>The simple transformation matrices\<close>

text \<open>
  Claim C5, as stated: in every stage matrix the off-diagonal sine entry with row index less
  than column index is \<open>+sin\<close> and the one with row index greater than column index is
  \<open>-sin\<close>, for every axis. This fails for the Y axis: the stage matrix of the middle rotation
  of X-Y-Z by \<open>pi/2\<close> has \<open>-1 = -sin (pi/2)\<close> at row 0, column 2.
\<close>

theorem matrix_stage_counterexample:
  "el (matrix_stage (indices (Euler_info_at EulerXYZ)) (0, pi / 2, 0) 1) 0 2 = - 1
   \<and> sin (nth3 (0, pi / 2, 0) 1) = 1
   \<and> el (matrix_stage (indices (Euler_info_at EulerXYZ)) (0, pi / 2, 0) 1) 0 2
        \<noteq> sin (nth3 (0, pi / 2, 0) 1)"
  by (simp add: EulerXYZ_def info_XYZ mk_info_def matrix_stage_def set_el_def el_def
      Matrix3x3_initialize_def)

text \<open>
  Claim C5, amended: for each stage and each rotation axis \<open>a\<close> (X, Y or Z), the stage matrix
  has 1 at the diagonal position of \<open>a\<close>, the cosine of the angle at the other two diagonal
  positions, \<open>+sin\<close> at row \<open>(a+1) mod 3\<close>, column \<open>(a+2) mod 3\<close> and \<open>-sin\<close> at row
  \<open>(a+2) mod 3\<close>, column \<open>(a+1) mod 3\<close>, and 0 elsewhere. So the entry with row index less
  than column index is \<open>+sin\<close> for the X and Z axes and \<open>-sin\<close> for the Y axis.
\<close>

theorem matrix_stage_entries:
  assumes "nth3 axes ii = a" "a < 3"
  shows "matrix_stage axes euler_angles ii =
           (let s = sin (nth3 euler_angles ii); c = cos (nth3 euler_angles ii) in
            if a = 0 then ((1, 0, 0), (0, c, s), (0, - s, c))
            else if a = 1 then ((c, 0, - s), (0, 1, 0), (s, 0, c))
            else ((c, s, 0), (- s, c, 0), (0, 0, 1)))
       \<and> el (matrix_stage axes euler_angles ii) a a = 1
       \<and> el (matrix_stage axes euler_angles ii) ((a + 1) mod 3) ((a + 1) mod 3)
           = cos (nth3 euler_angles ii)
       \<and> el (matrix_stage axes euler_angles ii) ((a + 2) mod 3) ((a + 2) mod 3)
           = cos (nth3 euler_angles ii)
       \<and> el (matrix_stage axes euler_angles ii) ((a + 1) mod 3) ((a + 2) mod 3)
           = sin (nth3 euler_angles ii)
       \<and> el (matrix_stage axes euler_angles ii) ((a + 2) mod 3) ((a + 1) mod 3)
           = - sin (nth3 euler_angles ii)"
proof -
  from assms(2) have "a = 0 \<or> a = 1 \<or> a = 2" by arith
  then show ?thesis using assms(1)
    by (auto simp add: matrix_stage_def set_el_def el_def Matrix3x3_initialize_def Let_def)
qed

theorem matrix_stage_entries_witness:
  "nth3 (0, 1, 2::nat) 1 = 1 \<and> (1::nat) < 3
   \<and> matrix_stage (0, 1, 2) (0, pi / 2, 0) 1 = ((0, 0, - 1), (0, 1, 0), (1, 0, 0))"
  using matrix_stage_entries [of "(0, 1, 2)" 1 1 "(0, pi / 2, 0)"]
  by simp

subsection \<open>The range of the middle angle\<close>

text \<open>
  Claim C9. For every valid sequence and every matrix whose \<open>theta_val\<close> element satisfies
  \<open>\<bar>theta_val\<bar> \<le> 1\<close>, the middle angle returned by the extraction lies in
  \<open>[-pi/2, pi/2]\<close> for an aerodynamics (asymmetric) sequence and in \<open>[0, pi]\<close> for an
  astronomical (symmetric) sequence, whichever branch computes it.
\<close>

theorem theta_range:
  assumes "0 \<le> s" "s \<le> 11" "\<bar>theta_val (Euler_info_at s) m\<bar> \<le> 1"
  shows "(is_aerodynamics_sequence (Euler_info_at s) \<longrightarrow>
            - (pi / 2) \<le> nth3 (fst (compute_euler_angles_from_matrix m s (out, msgs))) 1
          \<and> nth3 (fst (compute_euler_angles_from_matrix m s (out, msgs))) 1 \<le> pi / 2)
       \<and> (\<not> is_aerodynamics_sequence (Euler_info_at s) \<longrightarrow>
            0 \<le> nth3 (fst (compute_euler_angles_from_matrix m s (out, msgs))) 1
          \<and> nth3 (fst (compute_euler_angles_from_matrix m s (out, msgs))) 1 \<le> pi)"
proof -
  let ?i = "Euler_info_at s"
  have th: "nth3 (fst (compute_euler_angles_from_matrix m s (out, msgs))) 1 = compute_theta ?i m"
    using assms(1,2) by (simp add: compute_euler_angles_valid extract_angles_def split: prod.split)
  have nn: "0 \<le> alt_theta_val ?i m" by (rule alt_theta_val_nonneg)
  show ?thesis
  proof (cases "alt_theta_val ?i m < \<bar>theta_val ?i m\<bar>")
    case True
    then have le1: "alt_theta_val ?i m \<le> 1" using assms(3) by simp
    have a0: "0 \<le> arcsin (alt_theta_val ?i m)" using nn le1 by (simp add: arcsin_nonneg)
    have a1: "arcsin (alt_theta_val ?i m) \<le> pi / 2"
      using arcsin_ubound [of "alt_theta_val ?i m"] nn le1 by linarith
    show ?thesis using True a0 a1 unfolding th by (simp add: compute_theta_def Let_def)
  next
    case False
    have b: "- 1 \<le> theta_val ?i m" "theta_val ?i m \<le> 1" using assms(3) by auto
    show ?thesis using False arcsin_bounded [OF b] arccos_bounded [OF b]
      unfolding th by (simp add: compute_theta_def)
  qed
qed

theorem theta_range_witness:
  "(0::int) \<le> 0 \<and> (0::int) \<le> 11
   \<and> \<bar>theta_val (Euler_info_at 0) ((0, 0, -1), (0, 1, 0), (1, 0, 0))\<bar> \<le> 1
   \<and> is_aerodynamics_sequence (Euler_info_at 0)
   \<and> - (pi / 2) \<le> nth3 (fst (compute_euler_angles_from_matrix
                                ((0, 0, -1), (0, 1, 0), (1, 0, 0)) 0 ((7, 8, 9), []))) 1
   \<and> nth3 (fst (compute_euler_angles_from_matrix
                   ((0, 0, -1), (0, 1, 0), (1, 0, 0)) 0 ((7, 8, 9), []))) 1 \<le> pi / 2"
  using theta_range [of 0 "((0, 0, -1), (0, 1, 0), (1, 0, 0))" "(7, 8, 9)" "[]"]
  by (simp add: info_XYZ mk_info_def theta_val_def theta_val_elem_def el_def)

subsection \<open>The elements the extraction reads\<close>

text \<open>
  Claim C10. For every valid sequence, two matrices that agree on the seven elements
  \<open>[axes[2]][axes[0]]\<close>, \<open>[axes[2]][axes[1]]\<close>, \<open>[axes[2]][alternate_z]\<close>, \<open>[axes[1]][axes[0]]\<close>,
  \<open>[alternate_x][axes[0]]\<close>, \<open>[axes[1]][alternate_z]\<close> and \<open>[axes[1]][axes[1]]\<close> give the same
  result of \<open>compute_euler_angles_from_matrix\<close>.
\<close>

theorem seven_elements:
  assumes "0 \<le> s" "s \<le> 11"
    and "el a (nth3 (indices (Euler_info_at s)) 2) (nth3 (indices (Euler_info_at s)) 0)
         = el b (nth3 (indices (Euler_info_at s)) 2) (nth3 (indices (Euler_info_at s)) 0)"
    and "el a (nth3 (indices (Euler_info_at s)) 2) (nth3 (indices (Euler_info_at s)) 1)
         = el b (nth3 (indices (Euler_info_at s)) 2) (nth3 (indices (Euler_info_at s)) 1)"
    and "el a (nth3 (indices (Euler_info_at s)) 2) (alternate_z (Euler_info_at s))
         = el b (nth3 (indices (Euler_info_at s)) 2) (alternate_z (Euler_info_at s))"
    and "el a (nth3 (indices (Euler_info_at s)) 1) (nth3 (indices (Euler_info_at s)) 0)
         = el b (nth3 (indices (Euler_info_at s)) 1) (nth3 (indices (Euler_info_at s)) 0)"
    and "el a (alternate_x (Euler_info_at s)) (nth3 (indices (Euler_info_at s)) 0)
         = el b (alternate_x (Euler_info_at s)) (nth3 (indices (Euler_info_at s)) 0)"
    and "el a (nth3 (indices (Euler_info_at s)) 1) (alternate_z (Euler_info_at s))
         = el b (nth3 (indices (Euler_info_at s)) 1) (alternate_z (Euler_info_at s))"
    and "el a (nth3 (indices (Euler_info_at s)) 1) (nth3 (indices (Euler_info_at s)) 1)
         = el b (nth3 (indices (Euler_info_at s)) 1) (nth3 (indices (Euler_info_at s)) 1)"
  shows "compute_euler_angles_from_matrix a s st = compute_euler_angles_from_matrix b s st"
proof -
  let ?i = "Euler_info_at s"
  have k: "theta_val_elem ?i a = theta_val_elem ?i b" "sin_phi_elem ?i a = sin_phi_elem ?i b"
     "cos_phi_elem ?i a = cos_phi_elem ?i b" "sin_psi_elem ?i a = sin_psi_elem ?i b"
     "cos_psi_elem ?i a = cos_psi_elem ?i b"
    using assms by (simp_all add: theta_val_elem_def sin_phi_elem_def cos_phi_elem_def
        sin_psi_elem_def cos_psi_elem_def)
  have alt: "alt_theta_val ?i a = alt_theta_val ?i b"
    by (simp add: alt_theta_val_def alt_theta_val1_def alt_theta_val2_def k)
  have tv: "theta_val ?i a = theta_val ?i b" by (simp add: theta_val_def k)
  have th: "compute_theta ?i a = compute_theta ?i b" by (simp add: compute_theta_def alt tv)
  have r: "regular_phi_psi ?i a = regular_phi_psi ?i b" by (simp add: regular_phi_psi_def k)
  have l: "locked_phi_psi ?i a = locked_phi_psi ?i b"
    using assms(8,9) by (simp add: locked_phi_psi_def)
  have "extract_angles ?i a = extract_angles ?i b"
    by (simp add: extract_angles_def alt th r l)
  then show ?thesis by (cases st) (simp add: compute_euler_angles_from_matrix_def)
qed

text \<open>The X-Y-Z extraction does not read the element at row 0, column 1.\<close>

theorem seven_elements_witness:
  "(0::int) \<le> 0 \<and> (0::int) \<le> 11
   \<and> (((0, 5, -1), (0, 1, 0), (1, 0, 0)) :: mat3) \<noteq> ((0, 6, -1), (0, 1, 0), (1, 0, 0))
   \<and> compute_euler_angles_from_matrix ((0, 5, -1), (0, 1, 0), (1, 0, 0)) 0 ((7, 8, 9), [])
     = compute_euler_angles_from_matrix ((0, 6, -1), (0, 1, 0), (1, 0, 0)) 0 ((7, 8, 9), [])"
  using seven_elements [of 0 "((0, 5, -1), (0, 1, 0), (1, 0, 0))"
      "((0, 6, -1), (0, 1, 0), (1, 0, 0))" "((7, 8, 9), [])"]
  by (simp add: info_XYZ mk_info_def el_def)

subsection \<open>The quaternion has unit norm\<close>

lemma norm_sq_multiply:
  "norm_sq (Quaternion_multiply p q) = norm_sq p * norm_sq q"
  by (cases "vector p"; cases "vector q")
     (simp add: norm_sq_def Quaternion_multiply_def algebra_simps)

lemma norm_sq_stage: "norm_sq (quaternion_stage axes euler_angles ii) = 1"
proof -
  have sc: "sin x * sin x + cos x * cos x = 1" "cos x * cos x + sin x * sin x = 1" for x :: real
    using sin_cos_squared_add [of x] by (simp_all add: power2_eq_square add.commute)
  show ?thesis
    by (simp add: norm_sq_def quaternion_stage_def Quaternion_default_def Let_def sc)
qed

lemma normalize_unit:
  assumes nz: "norm_sq q \<noteq> 0"
  shows "Quaternion_norm (Quaternion_normalize q) = 1"
proof -
  obtain v1 v2 v3 where v: "vector q = (v1, v2, v3)" by (cases "vector q")
  have ge: "0 \<le> norm_sq q" by (simp add: norm_sq_def v)
  with nz have pos: "0 < norm_sq q" by simp
  define n where "n = Quaternion_norm q"
  have n: "n \<noteq> 0" and nn: "n * n = norm_sq q"
    using pos by (simp_all add: n_def Quaternion_norm_def)
  have "Quaternion_normalize q = \<lparr>scalar = scalar q / n, vector = (v1 / n, v2 / n, v3 / n)\<rparr>"
    using n by (simp add: Quaternion_normalize_def Let_def v n_def)
  then have "norm_sq (Quaternion_normalize q)
      = (scalar q * scalar q + v1 * v1 + v2 * v2 + v3 * v3) / (n * n)"
    by (simp add: norm_sq_def add_divide_distrib)
  also have "\<dots> = norm_sq q / norm_sq q" by (simp add: nn norm_sq_def v)
  also have "\<dots> = 1" using nz by simp
  finally show ?thesis by (simp add: Quaternion_norm_def)
qed

text \<open>
  Claim C8. For every valid sequence identifier and every angle triple, the quaternion
  produced by \<open>compute_quaternion_from_euler_angles\<close> has norm 1 (over the reals): the three
  simple quaternions have norm 1, so has their product, and normalising divides by 1.
\<close>

theorem quaternion_unit_norm:
  assumes "0 \<le> s" "s \<le> 11"
  shows "Quaternion_norm (fst (compute_quaternion_from_euler_angles s euler_angles (quat, msgs))) = 1"
proof -
  let ?axes = "indices (Euler_info_at s)"
  let ?p = "Quaternion_multiply (Quaternion_multiply (quaternion_stage ?axes euler_angles 2)
               (quaternion_stage ?axes euler_angles 1)) (quaternion_stage ?axes euler_angles 0)"
  have "norm_sq ?p = 1" by (simp add: norm_sq_multiply norm_sq_stage)
  then have "Quaternion_norm (Quaternion_normalize ?p) = 1" by (simp add: normalize_unit)
  moreover have "fst (compute_quaternion_from_euler_angles s euler_angles (quat, msgs))
      = Quaternion_normalize ?p"
    using assms by (simp add: compute_quaternion_from_euler_angles_def Euler_enum_defs Let_def)
  ultimately show ?thesis by simp
qed

theorem quaternion_unit_norm_witness:
  "(0::int) \<le> 5 \<and> (5::int) \<le> 11
   \<and> Quaternion_norm (fst (compute_quaternion_from_euler_angles 5 (1, 2, 3)
        (Quaternion_default, []))) = 1"
  using quaternion_unit_norm [of 5 "(1, 2, 3)" Quaternion_default "[]"]
  by simp

subsection \<open>The angle of a point\<close>

text \<open>\<open>atan2\<close> recovers an angle of \<open>(-pi, pi]\<close> from its sine and cosine scaled by \<open>r > 0\<close>.\<close>

lemma atan2_pos: "0 < x \<Longrightarrow> atan2 y x = arctan (y / x)"
  by (simp add: atan2_def)

lemma atan2_neg_up: "x < 0 \<Longrightarrow> 0 \<le> y \<Longrightarrow> atan2 y x = arctan (y / x) + pi"
  by (simp add: atan2_def)

lemma atan2_neg_down: "x < 0 \<Longrightarrow> y < 0 \<Longrightarrow> atan2 y x = arctan (y / x) - pi"
  by (simp add: atan2_def)

lemma atan2_polar:
  assumes r: "0 < r" and lo: "- pi < a" and hi: "a \<le> pi"
  shows "atan2 (r * sin a) (r * cos a) = a"
proof -
  have q: "r * sin a / (r * cos a) = tan a"
    using r by (simp add: tan_def)
  consider (mid) "- (pi / 2) < a" "a < pi / 2"
    | (top) "a = pi / 2"
    | (bot) "a = - (pi / 2)"
    | (left_up) "pi / 2 < a"
    | (left_down) "a < - (pi / 2)"
    by linarith
  then show ?thesis
  proof cases
    case mid
    then have "0 < cos a" by (rule cos_gt_zero_pi)
    then have "0 < r * cos a" using r by simp
    then have "atan2 (r * sin a) (r * cos a) = arctan (r * sin a / (r * cos a))"
      by (rule atan2_pos)
    also have "\<dots> = arctan (tan a)" by (simp only: q)
    also have "\<dots> = a" using mid by (rule arctan_tan)
    finally show ?thesis .
  next
    case top
    have "atan2 (r * 1) (r * 0) = pi / 2" using r by (simp add: atan2_def)
    then show ?thesis unfolding top by (simp only: sin_pi_half cos_pi_half)
  next
    case bot
    have "atan2 (r * - 1) (r * 0) = - (pi / 2)" using r by (simp add: atan2_def)
    then show ?thesis unfolding bot by (simp only: sin_minus cos_minus sin_pi_half cos_pi_half)
  next
    case left_up
    have "0 < cos (a - pi)" using left_up hi by (intro cos_gt_zero_pi) linarith+
    then have "cos a < 0" by simp
    then have neg: "r * cos a < 0" using r by (simp add: mult_pos_neg)
    have "0 \<le> sin (pi - a)" using left_up hi by (intro sin_ge_zero) linarith+
    then have "0 \<le> sin a" by simp
    then have nn: "0 \<le> r * sin a" using r by simp
    have "tan a = tan (a - pi)" using tan_periodic_pi [of "a - pi"] by simp
    moreover have "arctan (tan (a - pi)) = a - pi"
      using left_up hi by (intro arctan_tan) linarith+
    ultimately have t: "arctan (tan a) = a - pi" by simp
    have "atan2 (r * sin a) (r * cos a) = arctan (r * sin a / (r * cos a)) + pi"
      using neg nn by (rule atan2_neg_up)
    also have "\<dots> = arctan (tan a) + pi" by (simp only: q)
    finally show ?thesis using t by simp
  next
    case left_down
    have "0 < cos (a + pi)" using left_down lo by (intro cos_gt_zero_pi) linarith+
    then have "cos a < 0" by simp
    then have neg: "r * cos a < 0" using r by (simp add: mult_pos_neg)
    have "0 < sin (a + pi)" using left_down lo by (intro sin_gt_zero) linarith+
    then have "sin a < 0" by simp
    then have sn: "r * sin a < 0" using r by (simp add: mult_pos_neg)
    have "arctan (tan (a + pi)) = a + pi"
      using left_down lo by (intro arctan_tan) linarith+
    then have t: "arctan (tan a) = a + pi" by simp
    have "atan2 (r * sin a) (r * cos a) = arctan (r * sin a / (r * cos a)) - pi"
      using neg sn by (rule atan2_neg_down)
    also have "\<dots> = arctan (tan a) - pi" by (simp only: q)
    finally show ?thesis using t by simp
  qed
qed

subsection \<open>The matrix of an angle triple\<close>

text \<open>
  The five key elements of the matrix that \<open>compute_matrix_from_euler_angles\<close> builds from
  the angles \<open>(a, b, c)\<close>, for each of the four classes of sequences (aerodynamics or
  astronomical, even or odd permutation).
\<close>

lemma Euler_info_at_simps:
  "Euler_info_at 0 = mk_info (0, 1, 2) 0 2 True True"
  "Euler_info_at 1 = mk_info (0, 2, 1) 0 1 False True"
  "Euler_info_at 2 = mk_info (1, 2, 0) 1 0 True True"
  "Euler_info_at 3 = mk_info (1, 0, 2) 1 2 False True"
  "Euler_info_at 4 = mk_info (2, 0, 1) 2 1 True True"
  "Euler_info_at 5 = mk_info (2, 1, 0) 2 0 False True"
  "Euler_info_at 6 = mk_info (0, 1, 0) 2 2 True False"
  "Euler_info_at 7 = mk_info (0, 2, 0) 1 1 False False"
  "Euler_info_at 8 = mk_info (1, 2, 1) 0 0 True False"
  "Euler_info_at 9 = mk_info (1, 0, 1) 2 2 False False"
  "Euler_info_at 10 = mk_info (2, 0, 2) 1 1 True False"
  "Euler_info_at 11 = mk_info (2, 1, 2) 0 0 False False"
  by (simp_all add: Euler_info_at_def Euler_info_def)


lemma product_explicit:
  "Matrix3x3_product ((a11, a12, a13), (a21, a22, a23), (a31, a32, a33))
                     ((b11, b12, b13), (b21, b22, b23), (b31, b32, b33))
   = ((a11 * b11 + a12 * b21 + a13 * b31, a11 * b12 + a12 * b22 + a13 * b32, a11 * b13 + a12 * b23 + a13 * b33),
      (a21 * b11 + a22 * b21 + a23 * b31, a21 * b12 + a22 * b22 + a23 * b32, a21 * b13 + a22 * b23 + a23 * b33),
      (a31 * b11 + a32 * b21 + a33 * b31, a31 * b12 + a32 * b22 + a33 * b32, a31 * b13 + a32 * b23 + a33 * b33))"
  by (simp add: Matrix3x3_product_def mat3_of_def el_def)

lemma stage_X: "nth3 axes ii = 0 \<Longrightarrow> matrix_stage axes ang ii
   = ((1, 0, 0), (0, cos (nth3 ang ii), sin (nth3 ang ii)), (0, - sin (nth3 ang ii), cos (nth3 ang ii)))"
  by (simp add: matrix_stage_def set_el_def Matrix3x3_initialize_def Let_def)

lemma stage_Y: "nth3 axes ii = 1 \<Longrightarrow> matrix_stage axes ang ii
   = ((cos (nth3 ang ii), 0, - sin (nth3 ang ii)), (0, 1, 0), (sin (nth3 ang ii), 0, cos (nth3 ang ii)))"
  by (simp add: matrix_stage_def set_el_def Matrix3x3_initialize_def Let_def)

lemma stage_Z: "nth3 axes ii = 2 \<Longrightarrow> matrix_stage axes ang ii
   = ((cos (nth3 ang ii), sin (nth3 ang ii), 0), (- sin (nth3 ang ii), cos (nth3 ang ii), 0), (0, 0, 1))"
  by (simp add: matrix_stage_def set_el_def Matrix3x3_initialize_def Let_def)

lemma compute_matrix_valid:
  "0 \<le> s \<Longrightarrow> s \<le> 11 \<Longrightarrow>
   fst (compute_matrix_from_euler_angles s ang st) =
     Matrix3x3_product (Matrix3x3_product (matrix_stage (indices (Euler_info_at s)) ang 2)
        (matrix_stage (indices (Euler_info_at s)) ang 1)) (matrix_stage (indices (Euler_info_at s)) ang 0)"
  by (cases st) (simp add: compute_matrix_from_euler_angles_def Euler_enum_defs Let_def)


lemmas seq_eval =
  compute_matrix_valid Euler_info_at_simps mk_info_def stage_X stage_Y stage_Z product_explicit
  theta_val_elem_def sin_phi_elem_def cos_phi_elem_def sin_psi_elem_def cos_psi_elem_def el_def

lemma key_aero_even:
  assumes "s = 0 \<or> s = 2 \<or> s = 4"
  shows "theta_val_elem (Euler_info_at s) (fst (compute_matrix_from_euler_angles s (a, b, c) st)) = sin b"
    "sin_phi_elem (Euler_info_at s) (fst (compute_matrix_from_euler_angles s (a, b, c) st)) = - (cos b * sin a)"
    "cos_phi_elem (Euler_info_at s) (fst (compute_matrix_from_euler_angles s (a, b, c) st)) = cos b * cos a"
    "sin_psi_elem (Euler_info_at s) (fst (compute_matrix_from_euler_angles s (a, b, c) st)) = - (cos b * sin c)"
    "cos_psi_elem (Euler_info_at s) (fst (compute_matrix_from_euler_angles s (a, b, c) st)) = cos b * cos c"
  using assms by (elim disjE; simp add: seq_eval)+

lemma key_aero_odd:
  assumes "s = 1 \<or> s = 3 \<or> s = 5"
  shows "theta_val_elem (Euler_info_at s) (fst (compute_matrix_from_euler_angles s (a, b, c) st)) = - sin b"
    "sin_phi_elem (Euler_info_at s) (fst (compute_matrix_from_euler_angles s (a, b, c) st)) = cos b * sin a"
    "cos_phi_elem (Euler_info_at s) (fst (compute_matrix_from_euler_angles s (a, b, c) st)) = cos b * cos a"
    "sin_psi_elem (Euler_info_at s) (fst (compute_matrix_from_euler_angles s (a, b, c) st)) = cos b * sin c"
    "cos_psi_elem (Euler_info_at s) (fst (compute_matrix_from_euler_angles s (a, b, c) st)) = cos b * cos c"
  using assms by (elim disjE; simp add: seq_eval)+

lemma key_astro_even:
  assumes "s = 6 \<or> s = 8 \<or> s = 10"
  shows "theta_val_elem (Euler_info_at s) (fst (compute_matrix_from_euler_angles s (a, b, c) st)) = cos b"
    "sin_phi_elem (Euler_info_at s) (fst (compute_matrix_from_euler_angles s (a, b, c) st)) = sin b * sin a"
    "cos_phi_elem (Euler_info_at s) (fst (compute_matrix_from_euler_angles s (a, b, c) st)) = - (sin b * cos a)"
    "sin_psi_elem (Euler_info_at s) (fst (compute_matrix_from_euler_angles s (a, b, c) st)) = sin b * sin c"
    "cos_psi_elem (Euler_info_at s) (fst (compute_matrix_from_euler_angles s (a, b, c) st)) = sin b * cos c"
  using assms by (elim disjE; simp add: seq_eval)+

lemma key_astro_odd:
  assumes "s = 7 \<or> s = 9 \<or> s = 11"
  shows "theta_val_elem (Euler_info_at s) (fst (compute_matrix_from_euler_angles s (a, b, c) st)) = cos b"
    "sin_phi_elem (Euler_info_at s) (fst (compute_matrix_from_euler_angles s (a, b, c) st)) = sin b * sin a"
    "cos_phi_elem (Euler_info_at s) (fst (compute_matrix_from_euler_angles s (a, b, c) st)) = sin b * cos a"
    "sin_psi_elem (Euler_info_at s) (fst (compute_matrix_from_euler_angles s (a, b, c) st)) = sin b * sin c"
    "cos_psi_elem (Euler_info_at s) (fst (compute_matrix_from_euler_angles s (a, b, c) st)) = - (sin b * cos c)"
  using assms by (elim disjE; simp add: seq_eval)+

subsection \<open>Recovering the middle angle\<close>

text \<open>
  When \<open>theta_val\<close> and \<open>alt_theta_val\<close> are the sine and cosine (aerodynamics) or the cosine
  and sine (astronomical) of an angle in the principal range, \<open>compute_theta\<close> returns that
  angle, in the \<open>asin (alt_theta_val)\<close> branch as well as in the direct one.
\<close>

lemma sqrt_scaled_sin_cos:
  "sqrt (x * sin a * (x * sin a) + x * cos a * (x * cos a)) = \<bar>x\<bar>"
proof -
  have one: "sin a * sin a + cos a * cos a = 1"
    using sin_cos_squared_add [of a] by (simp add: power2_eq_square)
  have "x * sin a * (x * sin a) + x * cos a * (x * cos a)
        = x * x * (sin a * sin a + cos a * cos a)"
    by (simp only: distrib_left mult.assoc mult.left_commute)
  also have "\<dots> = x * x" by (simp only: one mult_1_right)
  finally show ?thesis by simp
qed

lemma alt_theta_val_scaled:
  assumes "sin_phi_elem info m = x * sin a \<or> sin_phi_elem info m = - (x * sin a)"
    and "cos_phi_elem info m = x * cos a \<or> cos_phi_elem info m = - (x * cos a)"
    and "sin_psi_elem info m = x * sin c \<or> sin_psi_elem info m = - (x * sin c)"
    and "cos_psi_elem info m = x * cos c \<or> cos_psi_elem info m = - (x * cos c)"
  shows "alt_theta_val info m = \<bar>x\<bar>"
proof -
  have 1: "alt_theta_val1 info m = \<bar>x\<bar>"
    unfolding alt_theta_val1_def using assms(1,2) sqrt_scaled_sin_cos [of x a] by auto
  have 2: "alt_theta_val2 info m = \<bar>x\<bar>"
    unfolding alt_theta_val2_def using assms(3,4) sqrt_scaled_sin_cos [of x c] by auto
  show ?thesis by (simp add: alt_theta_val_def 1 2)
qed

lemma theta_aero:
  assumes aero: "is_aerodynamics_sequence info"
    and tv: "theta_val info m = sin b" and alt: "alt_theta_val info m = cos b"
    and lo: "- (pi / 2) < b" and hi: "b < pi / 2"
  shows "compute_theta info m = b"
proof (cases "cos b < \<bar>sin b\<bar>")
  case False
  have "arcsin (sin b) = b" using lo hi by (intro arcsin_sin) linarith+
  then show ?thesis using False aero by (simp add: compute_theta_def tv alt)
next
  case True
  show ?thesis
  proof (cases "sin b < 0")
    case neg: True
    have "b < 0"
    proof (rule ccontr)
      assume "\<not> b < 0"
      then have "0 \<le> sin b" using hi pi_gt_zero by (intro sin_ge_zero) linarith+
      with neg show False by simp
    qed
    have "cos b = sin (pi / 2 + b)" by (simp add: sin_add)
    moreover have "arcsin (sin (pi / 2 + b)) = pi / 2 + b"
      using lo \<open>b < 0\<close> by (intro arcsin_sin) linarith+
    ultimately have "arcsin (cos b) = pi / 2 + b" by simp
    then show ?thesis using True neg aero by (simp add: compute_theta_def tv alt Let_def)
  next
    case nonneg: False
    have "0 \<le> b"
    proof (rule ccontr)
      assume "\<not> 0 \<le> b"
      then have "0 < sin (- b)" using lo pi_gt_zero by (intro sin_gt_zero) linarith+
      with nonneg show False by simp
    qed
    have "cos b = sin (pi / 2 - b)" by (simp add: sin_diff)
    moreover have "arcsin (sin (pi / 2 - b)) = pi / 2 - b"
      using hi \<open>0 \<le> b\<close> by (intro arcsin_sin) linarith+
    ultimately have "arcsin (cos b) = pi / 2 - b" by simp
    then show ?thesis using True nonneg aero by (simp add: compute_theta_def tv alt Let_def)
  qed
qed

lemma theta_astro:
  assumes astro: "\<not> is_aerodynamics_sequence info"
    and tv: "theta_val info m = cos b" and alt: "alt_theta_val info m = sin b"
    and lo: "0 < b" and hi: "b < pi"
  shows "compute_theta info m = b"
proof (cases "sin b < \<bar>cos b\<bar>")
  case False
  have "arccos (cos b) = b" using lo hi by (intro arccos_cos) linarith+
  then show ?thesis using False astro by (simp add: compute_theta_def tv alt)
next
  case True
  show ?thesis
  proof (cases "cos b < 0")
    case neg: True
    have "pi / 2 < b"
    proof (rule ccontr)
      assume "\<not> pi / 2 < b"
      then have "0 \<le> cos b" using lo by (intro cos_ge_zero) linarith+
      with neg show False by simp
    qed
    have "sin b = sin (pi - b)" by simp
    moreover have "arcsin (sin (pi - b)) = pi - b"
      using hi \<open>pi / 2 < b\<close> by (intro arcsin_sin) linarith+
    ultimately have "arcsin (sin b) = pi - b" by simp
    then show ?thesis using True neg astro by (simp add: compute_theta_def tv alt Let_def)
  next
    case nonneg: False
    have "b \<le> pi / 2"
    proof (rule ccontr)
      assume "\<not> b \<le> pi / 2"
      then have "0 < cos (pi - b)" using hi by (intro cos_gt_zero_pi) linarith+
      with nonneg show False by simp
    qed
    have "arcsin (sin b) = b" using lo \<open>b \<le> pi / 2\<close> by (intro arcsin_sin) linarith+
    then show ?thesis using True nonneg astro by (simp add: compute_theta_def tv alt Let_def)
  qed
qed

subsection \<open>The round trip, class by class\<close>

lemma class_flags:
  "s = 0 \<or> s = 2 \<or> s = 4 \<Longrightarrow>
     is_aerodynamics_sequence (Euler_info_at s) \<and> is_even_permutation (Euler_info_at s)"
  "s = 1 \<or> s = 3 \<or> s = 5 \<Longrightarrow>
     is_aerodynamics_sequence (Euler_info_at s) \<and> \<not> is_even_permutation (Euler_info_at s)"
  "s = 6 \<or> s = 8 \<or> s = 10 \<Longrightarrow>
     \<not> is_aerodynamics_sequence (Euler_info_at s) \<and> is_even_permutation (Euler_info_at s)"
  "s = 7 \<or> s = 9 \<or> s = 11 \<Longrightarrow>
     \<not> is_aerodynamics_sequence (Euler_info_at s) \<and> \<not> is_even_permutation (Euler_info_at s)"
  by (auto simp add: Euler_info_at_simps mk_info_def)

lemma sequence_classes:
  "0 \<le> s \<Longrightarrow> s \<le> (11::int) \<Longrightarrow>
   (s = 0 \<or> s = 2 \<or> s = 4) \<or> (s = 1 \<or> s = 3 \<or> s = 5)
   \<or> (s = 6 \<or> s = 8 \<or> s = 10) \<or> (s = 7 \<or> s = 9 \<or> s = 11)"
  by arith

lemma extract_regular:
  assumes "gimbal_lock_threshold < alt_theta_val info m"
    and "compute_theta info m = b"
    and "regular_phi_psi info m = (a, c)"
  shows "extract_angles info m = (a, b, c)"
  using assms by (simp add: extract_angles_def)

lemma roundtrip_aero:
  assumes s: "(s = 0 \<or> s = 2 \<or> s = 4) \<or> (s = 1 \<or> s = 3 \<or> s = 5)"
    and a: "- pi < a" "a \<le> pi" and c: "- pi < c" "c \<le> pi"
    and b: "- (pi / 2) < b" "b < pi / 2" "gimbal_lock_threshold < cos b"
  shows "extract_angles (Euler_info_at s) (fst (compute_matrix_from_euler_angles s (a, b, c) st))
         = (a, b, c)"
proof -
  let ?i = "Euler_info_at s"
  let ?m = "fst (compute_matrix_from_euler_angles s (a, b, c) st)"
  have pos: "0 < cos b" using b(1,2) by (rule cos_gt_zero_pi)
  from s show ?thesis
  proof
    assume e: "s = 0 \<or> s = 2 \<or> s = 4"
    note k = key_aero_even [OF e, of a b c st]
    note f = class_flags(1) [OF e]
    have alt: "alt_theta_val ?i ?m = cos b"
      using alt_theta_val_scaled [of ?i ?m "cos b" a c] k pos by simp
    have tv: "theta_val ?i ?m = sin b" using f k(1) by (simp add: theta_val_def)
    have th: "compute_theta ?i ?m = b" using f tv alt b(1,2) by (intro theta_aero) simp_all
    have "regular_phi_psi ?i ?m
          = (atan2 (cos b * sin a) (cos b * cos a), atan2 (cos b * sin c) (cos b * cos c))"
      using f by (simp add: regular_phi_psi_def k)
    then have "regular_phi_psi ?i ?m = (a, c)"
      using atan2_polar [OF pos a] atan2_polar [OF pos c] by simp
    with alt th b(3) show ?thesis by (intro extract_regular) simp_all
  next
    assume e: "s = 1 \<or> s = 3 \<or> s = 5"
    note k = key_aero_odd [OF e, of a b c st]
    note f = class_flags(2) [OF e]
    have alt: "alt_theta_val ?i ?m = cos b"
      using alt_theta_val_scaled [of ?i ?m "cos b" a c] k pos by simp
    have tv: "theta_val ?i ?m = sin b" using f k(1) by (simp add: theta_val_def)
    have th: "compute_theta ?i ?m = b" using f tv alt b(1,2) by (intro theta_aero) simp_all
    have "regular_phi_psi ?i ?m
          = (atan2 (cos b * sin a) (cos b * cos a), atan2 (cos b * sin c) (cos b * cos c))"
      using f by (simp add: regular_phi_psi_def k)
    then have "regular_phi_psi ?i ?m = (a, c)"
      using atan2_polar [OF pos a] atan2_polar [OF pos c] by simp
    with alt th b(3) show ?thesis by (intro extract_regular) simp_all
  qed
qed

lemma roundtrip_astro:
  assumes s: "(s = 6 \<or> s = 8 \<or> s = 10) \<or> (s = 7 \<or> s = 9 \<or> s = 11)"
    and a: "- pi < a" "a \<le> pi" and c: "- pi < c" "c \<le> pi"
    and b: "0 < b" "b < pi" "gimbal_lock_threshold < sin b"
  shows "extract_angles (Euler_info_at s) (fst (compute_matrix_from_euler_angles s (a, b, c) st))
         = (a, b, c)"
proof -
  let ?i = "Euler_info_at s"
  let ?m = "fst (compute_matrix_from_euler_angles s (a, b, c) st)"
  have pos: "0 < sin b" using b(1,2) by (rule sin_gt_zero)
  from s show ?thesis
  proof
    assume e: "s = 6 \<or> s = 8 \<or> s = 10"
    note k = key_astro_even [OF e, of a b c st]
    note f = class_flags(3) [OF e]
    have alt: "alt_theta_val ?i ?m = sin b"
      using alt_theta_val_scaled [of ?i ?m "sin b" a c] k pos by simp
    have tv: "theta_val ?i ?m = cos b" using f k(1) by (simp add: theta_val_def)
    have th: "compute_theta ?i ?m = b" using f tv alt b(1,2) by (intro theta_astro) simp_all
    have "regular_phi_psi ?i ?m
          = (atan2 (sin b * sin a) (sin b * cos a), atan2 (sin b * sin c) (sin b * cos c))"
      using f by (simp add: regular_phi_psi_def k)
    then have "regular_phi_psi ?i ?m = (a, c)"
      using atan2_polar [OF pos a] atan2_polar [OF pos c] by simp
    with alt th b(3) show ?thesis by (intro extract_regular) simp_all
  next
    assume e: "s = 7 \<or> s = 9 \<or> s = 11"
    note k = key_astro_odd [OF e, of a b c st]
    note f = class_flags(4) [OF e]
    have alt: "alt_theta_val ?i ?m = sin b"
      using alt_theta_val_scaled [of ?i ?m "sin b" a c] k pos by simp
    have tv: "theta_val ?i ?m = cos b" using f k(1) by (simp add: theta_val_def)
    have th: "compute_theta ?i ?m = b" using f tv alt b(1,2) by (intro theta_astro) simp_all
    have "regular_phi_psi ?i ?m
          = (atan2 (sin b * sin a) (sin b * cos a), atan2 (sin b * sin c) (sin b * cos c))"
      using f by (simp add: regular_phi_psi_def k)
    then have "regular_phi_psi ?i ?m = (a, c)"
      using atan2_polar [OF pos a] atan2_polar [OF pos c] by simp
    with alt th b(3) show ?thesis by (intro extract_regular) simp_all
  qed
qed

lemma sin_small: "gimbal_lock_threshold < sin (1 / 10 ^ 6)"
proof -
  let ?x = "1 / 10 ^ 6 :: real"
  have s: "(\<Sum>m<3. sin_coeff m * ?x ^ m) = ?x"
    by (simp add: sin_coeff_def lessThan_nat_numeral lessThan_Suc)
  have "\<bar>sin ?x - (\<Sum>m<3. sin_coeff m * ?x ^ m)\<bar> \<le> inverse (fact 3) * \<bar>?x\<bar> ^ 3"
    by (rule Maclaurin_sin_bound)
  then have "\<bar>sin ?x - ?x\<bar> \<le> inverse 6 * ?x ^ 3"
    unfolding s by (simp add: fact_numeral)
  then have "?x - inverse 6 * ?x ^ 3 \<le> sin ?x" by linarith
  moreover have "gimbal_lock_threshold < ?x - inverse 6 * ?x ^ 3"
    by (simp add: gimbal_lock_threshold_def power_divide)
  ultimately show ?thesis by linarith
qed

lemma cos_margin:
  assumes "\<bar>b\<bar> < pi / 2 - 1 / 10 ^ 6"
  shows "gimbal_lock_threshold < cos b"
proof -
  have "sin (1 / 10 ^ 6) \<le> sin (pi / 2 - \<bar>b\<bar>)"
    using assms by (intro sin_monotone_2pi_le) (simp_all add: field_simps)
  also have "\<dots> = cos b" by (simp add: sin_diff)
  finally show ?thesis using sin_small by linarith
qed

lemma sin_margin:
  assumes "1 / 10 ^ 6 < b" "b < pi - 1 / 10 ^ 6"
  shows "gimbal_lock_threshold < sin b"
proof (cases "b \<le> pi / 2")
  case True
  have "sin (1 / 10 ^ 6) \<le> sin b"
    using assms True by (intro sin_monotone_2pi_le) simp_all
  then show ?thesis using sin_small by linarith
next
  case False
  have "sin (1 / 10 ^ 6) \<le> sin (pi - b)"
    using assms False by (intro sin_monotone_2pi_le) simp_all
  then show ?thesis using sin_small by simp
qed


subsection \<open>Round trip in the regular case\<close>

text \<open>
  Claim C1, as stated: for every sequence and every angle triple whose middle angle is
  bounded away from the singular value, the extraction applied to the matrix of the triple
  returns the triple. This fails, since phi, psi and (for symmetric sequences) theta are
  otherwise unconstrained: X-Y-Z with \<open>(2 pi, 0, 0)\<close> gives the identity matrix and the
  extraction returns \<open>(0, 0, 0)\<close>; Z-X-Z with \<open>(0, -pi/2, 0)\<close>, whose middle angle is away from
  0 and \<open>pi\<close>, returns \<open>(pi, pi/2, pi)\<close>.
\<close>

theorem roundtrip_counterexample:
  "\<bar>0 :: real\<bar> < pi / 2 - 1 / 10 ^ 6
   \<and> fst (compute_euler_angles_from_matrix
            (fst (compute_matrix_from_euler_angles EulerXYZ (2 * pi, 0, 0) (Matrix3x3_initialize, [])))
            EulerXYZ ((0, 0, 0), []))
       = (0, 0, 0)
   \<and> 1 / 10 ^ 9 < \<bar>2 * pi - 0\<bar>
   \<and> fst (compute_euler_angles_from_matrix
            (fst (compute_matrix_from_euler_angles EulerZXZ (0, - (pi / 2), 0) (Matrix3x3_initialize, [])))
            EulerZXZ ((0, 0, 0), []))
       = (pi, pi / 2, pi)
   \<and> 1 / 10 ^ 9 < \<bar>- (pi / 2) - pi / 2\<bar>"
proof -
  have m1: "fst (compute_matrix_from_euler_angles 0 (2 * pi, 0, 0) (Matrix3x3_initialize, []))
            = ((1, 0, 0), (0, 1, 0), (0, 0, 1))"
    by (simp add: seq_eval)
  have e1: "extract_angles (Euler_info_at 0) ((1, 0, 0), (0, 1, 0), (0, 0, 1)) = (0, 0, 0)"
    by (simp add: extract_angles_def compute_theta_def theta_val_def alt_theta_val_def
        alt_theta_val1_def alt_theta_val2_def regular_phi_psi_def gimbal_lock_threshold_def
        theta_val_elem_def sin_phi_elem_def cos_phi_elem_def sin_psi_elem_def cos_psi_elem_def
        el_def Euler_info_at_simps mk_info_def atan2_def)
  have m2: "fst (compute_matrix_from_euler_angles 10 (0, - (pi / 2), 0) (Matrix3x3_initialize, []))
            = ((1, 0, 0), (0, 0, - 1), (0, 1, 0))"
    by (simp add: seq_eval)
  have e2: "extract_angles (Euler_info_at 10) ((1, 0, 0), (0, 0, - 1), (0, 1, 0)) = (pi, pi / 2, pi)"
    by (simp add: extract_angles_def compute_theta_def theta_val_def alt_theta_val_def
        alt_theta_val1_def alt_theta_val2_def regular_phi_psi_def gimbal_lock_threshold_def
        theta_val_elem_def sin_phi_elem_def cos_phi_elem_def sin_psi_elem_def cos_psi_elem_def
        el_def Euler_info_at_simps mk_info_def atan2_def)
  have p: "1 / 10 ^ 9 < 2 * pi" "1 / 10 ^ 6 < pi / 2" "1 / 10 ^ 9 < pi"
    using pi_ge_two by simp_all
  show ?thesis
    unfolding EulerXYZ_def EulerZXZ_def
    using p by (simp add: m1 m2 e1 e2 compute_euler_angles_valid)
qed

text \<open>
  Claim C1, amended: for every one of the twelve sequences and every angle triple with
  phi and psi in \<open>(-pi, pi]\<close> and the middle angle bounded away from the singular value
  (\<open>\<bar>theta\<bar> < pi/2 - 1e-6\<close> for aerodynamics sequences, \<open>1e-6 < theta < pi - 1e-6\<close> for
  astronomical sequences), the extraction applied to the matrix of the triple returns the
  triple exactly (over the reals).
\<close>

theorem roundtrip_regular:
  assumes "0 \<le> s" "s \<le> 11"
    and "- pi < phi" "phi \<le> pi" "- pi < psi" "psi \<le> pi"
    and "is_aerodynamics_sequence (Euler_info_at s) \<Longrightarrow> \<bar>theta\<bar> < pi / 2 - 1 / 10 ^ 6"
    and "\<not> is_aerodynamics_sequence (Euler_info_at s) \<Longrightarrow>
           1 / 10 ^ 6 < theta \<and> theta < pi - 1 / 10 ^ 6"
  shows "fst (compute_euler_angles_from_matrix
               (fst (compute_matrix_from_euler_angles s (phi, theta, psi) (m0, msgs)))
               s (out, msgs'))
         = (phi, theta, psi)"
proof -
  have e: "extract_angles (Euler_info_at s)
             (fst (compute_matrix_from_euler_angles s (phi, theta, psi) (m0, msgs)))
           = (phi, theta, psi)"
  proof -
    consider (ae) "s = 0 \<or> s = 2 \<or> s = 4" | (ao) "s = 1 \<or> s = 3 \<or> s = 5"
      | (se) "s = 6 \<or> s = 8 \<or> s = 10" | (so) "s = 7 \<or> s = 9 \<or> s = 11"
      using sequence_classes [OF assms(1,2)] by blast
    then show ?thesis
    proof cases
    case c: ae
    then have b: "\<bar>theta\<bar> < pi / 2 - 1 / 10 ^ 6" using assms(7) class_flags(1) by blast
    have lo: "- (pi / 2) < theta" and hi: "theta < pi / 2" using b by (auto simp add: abs_less_iff)
    show ?thesis
      by (rule roundtrip_aero [OF disjI1 [OF c] assms(3-6) lo hi cos_margin [OF b]])
  next
    case c: ao
    then have b: "\<bar>theta\<bar> < pi / 2 - 1 / 10 ^ 6" using assms(7) class_flags(2) by blast
    have lo: "- (pi / 2) < theta" and hi: "theta < pi / 2" using b by (auto simp add: abs_less_iff)
    show ?thesis
      by (rule roundtrip_aero [OF disjI2 [OF c] assms(3-6) lo hi cos_margin [OF b]])
  next
    case c: se
    then have b: "1 / 10 ^ 6 < theta" "theta < pi - 1 / 10 ^ 6"
      using assms(8) class_flags(3) by blast+
    have lo: "0 < theta" and hi: "theta < pi" using b by auto
    show ?thesis
      by (rule roundtrip_astro [OF disjI1 [OF c] assms(3-6) lo hi sin_margin [OF b]])
  next
    case c: so
    then have b: "1 / 10 ^ 6 < theta" "theta < pi - 1 / 10 ^ 6"
      using assms(8) class_flags(4) by blast+
    have lo: "0 < theta" and hi: "theta < pi" using b by auto
    show ?thesis
      by (rule roundtrip_astro [OF disjI2 [OF c] assms(3-6) lo hi sin_margin [OF b]])
  qed
  qed
  show ?thesis using assms(1,2) by (simp add: compute_euler_angles_valid e)
qed

theorem roundtrip_regular_witness:
  "(0::int) \<le> 10 \<and> (10::int) \<le> 11 \<and> - pi < 1 \<and> 1 \<le> pi \<and> - pi < - 1 \<and> - 1 \<le> pi
   \<and> \<not> is_aerodynamics_sequence (Euler_info_at 10)
   \<and> 1 / 10 ^ 6 < (1::real) \<and> 1 < pi - 1 / 10 ^ 6
   \<and> fst (compute_euler_angles_from_matrix
            (fst (compute_matrix_from_euler_angles 10 (1, 1, - 1) (Matrix3x3_initialize, [])))
            10 ((0, 0, 0), []))
       = (1, 1, - 1)"
  using roundtrip_regular [of 10 1 "- 1" 1 Matrix3x3_initialize "[]" "(0, 0, 0)" "[]"] pi_ge_two
  by (simp add: Euler_info_at_simps mk_info_def)

subsection \<open>The concrete scenario\<close>

text \<open>Bounds on the sines and cosines of 0.1, 0.2 and 0.3 from their Maclaurin expansions.\<close>

lemma sin_taylor7:
  fixes x :: real
  shows "\<bar>sin x - (x - x ^ 3 / 6 + x ^ 5 / 120)\<bar> \<le> \<bar>x\<bar> ^ 7 / 5040"
proof -
  have s: "(\<Sum>m<7. sin_coeff m * x ^ m) = x - x ^ 3 / 6 + x ^ 5 / 120"
    by (simp add: sin_coeff_def lessThan_nat_numeral lessThan_Suc fact_numeral)
  have "\<bar>sin x - (\<Sum>m<7. sin_coeff m * x ^ m)\<bar> \<le> inverse (fact 7) * \<bar>x\<bar> ^ 7"
    by (rule Maclaurin_sin_bound)
  then show ?thesis unfolding s by (simp add: fact_numeral)
qed

lemma cos_taylor8:
  fixes x :: real
  shows "\<bar>cos x - (1 - x ^ 2 / 2 + x ^ 4 / 24 - x ^ 6 / 720)\<bar> \<le> \<bar>x\<bar> ^ 8 / 40320"
proof -
  have s: "(\<Sum>m<8. cos_coeff m * x ^ m) = 1 - x ^ 2 / 2 + x ^ 4 / 24 - x ^ 6 / 720"
    by (simp add: cos_coeff_def lessThan_nat_numeral lessThan_Suc fact_numeral)
  obtain t where
    "cos x = (\<Sum>m<8. cos_coeff m * x ^ m) + (cos (t + 1 / 2 * real 8 * pi) / fact 8) * x ^ 8"
    using Maclaurin_cos_expansion [of x 8] by blast
  then have "cos x - (1 - x ^ 2 / 2 + x ^ 4 / 24 - x ^ 6 / 720)
             = (cos (t + 1 / 2 * real 8 * pi) / fact 8) * x ^ 8"
    unfolding s by linarith
  moreover define k where "k = cos (t + 1 / 2 * real 8 * pi)"
  ultimately have eq: "cos x - (1 - x ^ 2 / 2 + x ^ 4 / 24 - x ^ 6 / 720) = k * (x ^ 8 / 40320)"
    by (simp add: fact_numeral)
  have k: "\<bar>k\<bar> \<le> 1" unfolding k_def by (rule abs_cos_le_one)
  have "\<bar>cos x - (1 - x ^ 2 / 2 + x ^ 4 / 24 - x ^ 6 / 720)\<bar> = \<bar>k * (x ^ 8 / 40320)\<bar>"
    by (simp only: eq)
  also have "\<dots> = \<bar>k\<bar> * (\<bar>x\<bar> ^ 8 / 40320)"
    by (simp add: abs_mult power_abs)
  also have "\<dots> \<le> 1 * (\<bar>x\<bar> ^ 8 / 40320)"
    using k by (intro mult_right_mono) simp_all
  finally show ?thesis by simp
qed

lemma trig_bounds:
  "99833 / 10 ^ 6 \<le> sin (1 / 10 :: real)" "sin (1 / 10 :: real) \<le> 99834 / 10 ^ 6"
  "995004 / 10 ^ 6 \<le> cos (1 / 10 :: real)" "cos (1 / 10 :: real) \<le> 995005 / 10 ^ 6"
  "198669 / 10 ^ 6 \<le> sin (1 / 5 :: real)" "sin (1 / 5 :: real) \<le> 198670 / 10 ^ 6"
  "980066 / 10 ^ 6 \<le> cos (1 / 5 :: real)" "cos (1 / 5 :: real) \<le> 980067 / 10 ^ 6"
  "295520 / 10 ^ 6 \<le> sin (3 / 10 :: real)" "sin (3 / 10 :: real) \<le> 295521 / 10 ^ 6"
  "955336 / 10 ^ 6 \<le> cos (3 / 10 :: real)" "cos (3 / 10 :: real) \<le> 955337 / 10 ^ 6"
  using sin_taylor7 [of "1 / 10", unfolded abs_le_iff] cos_taylor8 [of "1 / 10", unfolded abs_le_iff]
    sin_taylor7 [of "1 / 5", unfolded abs_le_iff] cos_taylor8 [of "1 / 5", unfolded abs_le_iff]
    sin_taylor7 [of "3 / 10", unfolded abs_le_iff] cos_taylor8 [of "3 / 10", unfolded abs_le_iff]
  by (simp_all add: power_divide)

lemma row0_XYZ:
  "el (fst (compute_matrix_from_euler_angles 0 (a, b, c) st)) 0 0 = cos c * cos b"
  "el (fst (compute_matrix_from_euler_angles 0 (a, b, c) st)) 0 1
     = cos c * sin b * sin a + sin c * cos a"
  "el (fst (compute_matrix_from_euler_angles 0 (a, b, c) st)) 0 2
     = sin c * sin a - cos c * sin b * cos a"
  by (simp_all add: seq_eval)

lemma product_bounds:
  fixes x y :: real
  assumes "0 \<le> l1" "l1 \<le> x" "x \<le> u1" "0 \<le> l2" "l2 \<le> y" "y \<le> u2"
  shows "l1 * l2 \<le> x * y" "x * y \<le> u1 * u2"
  using assms by (auto intro!: mult_mono)

lemma scenario_row0_bounds:
  "936292 / 10 ^ 6 \<le> cos (3 / 10 :: real) * cos (1 / 5)"
  "cos (3 / 10 :: real) * cos (1 / 5) \<le> 936295 / 10 ^ 6"
  "312989 / 10 ^ 6 \<le> cos (3 / 10 :: real) * sin (1 / 5) * sin (1 / 10) + sin (3 / 10) * cos (1 / 10)"
  "cos (3 / 10 :: real) * sin (1 / 5) * sin (1 / 10) + sin (3 / 10) * cos (1 / 10) \<le> 312995 / 10 ^ 6"
  "- 159349 / 10 ^ 6 \<le> sin (3 / 10 :: real) * sin (1 / 10) - cos (3 / 10) * sin (1 / 5) * cos (1 / 10)"
  "sin (3 / 10 :: real) * sin (1 / 10) - cos (3 / 10) * sin (1 / 5) * cos (1 / 10) \<le> - 159341 / 10 ^ 6"
proof -
  note t = trig_bounds
  have cc: "955336 / 10 ^ 6 * (980066 / 10 ^ 6) \<le> cos (3 / 10 :: real) * cos (1 / 5)"
       "cos (3 / 10 :: real) * cos (1 / 5) \<le> 955337 / 10 ^ 6 * (980067 / 10 ^ 6)"
    using product_bounds [OF _ t(11) t(12) _ t(7) t(8)] by simp_all
  have cs: "955336 / 10 ^ 6 * (198669 / 10 ^ 6) \<le> cos (3 / 10 :: real) * sin (1 / 5)"
       "cos (3 / 10 :: real) * sin (1 / 5) \<le> 955337 / 10 ^ 6 * (198670 / 10 ^ 6)"
    using product_bounds [OF _ t(11) t(12) _ t(5) t(6)] by simp_all
  have css: "955336 / 10 ^ 6 * (198669 / 10 ^ 6) * (99833 / 10 ^ 6)
               \<le> cos (3 / 10 :: real) * sin (1 / 5) * sin (1 / 10)"
       "cos (3 / 10 :: real) * sin (1 / 5) * sin (1 / 10)
               \<le> 955337 / 10 ^ 6 * (198670 / 10 ^ 6) * (99834 / 10 ^ 6)"
    using product_bounds [OF _ cs _ t(1) t(2)] by simp_all
  have csc: "955336 / 10 ^ 6 * (198669 / 10 ^ 6) * (995004 / 10 ^ 6)
               \<le> cos (3 / 10 :: real) * sin (1 / 5) * cos (1 / 10)"
       "cos (3 / 10 :: real) * sin (1 / 5) * cos (1 / 10)
               \<le> 955337 / 10 ^ 6 * (198670 / 10 ^ 6) * (995005 / 10 ^ 6)"
    using product_bounds [OF _ cs _ t(3) t(4)] by simp_all
  have sc: "295520 / 10 ^ 6 * (995004 / 10 ^ 6) \<le> sin (3 / 10 :: real) * cos (1 / 10)"
       "sin (3 / 10 :: real) * cos (1 / 10) \<le> 295521 / 10 ^ 6 * (995005 / 10 ^ 6)"
    using product_bounds [OF _ t(9) t(10) _ t(3) t(4)] by simp_all
  have ss: "295520 / 10 ^ 6 * (99833 / 10 ^ 6) \<le> sin (3 / 10 :: real) * sin (1 / 10)"
       "sin (3 / 10 :: real) * sin (1 / 10) \<le> 295521 / 10 ^ 6 * (99834 / 10 ^ 6)"
    using product_bounds [OF _ t(9) t(10) _ t(1) t(2)] by simp_all
  show "936292 / 10 ^ 6 \<le> cos (3 / 10 :: real) * cos (1 / 5)"
    using cc(1) by simp
  show "cos (3 / 10 :: real) * cos (1 / 5) \<le> 936295 / 10 ^ 6"
    using cc(2) by simp
  show "312989 / 10 ^ 6 \<le> cos (3 / 10 :: real) * sin (1 / 5) * sin (1 / 10) + sin (3 / 10) * cos (1 / 10)"
    using css(1) sc(1) by simp
  show "cos (3 / 10 :: real) * sin (1 / 5) * sin (1 / 10) + sin (3 / 10) * cos (1 / 10) \<le> 312995 / 10 ^ 6"
    using css(2) sc(2) by simp
  show "- 159349 / 10 ^ 6 \<le> sin (3 / 10 :: real) * sin (1 / 10) - cos (3 / 10) * sin (1 / 5) * cos (1 / 10)"
    using ss(1) csc(2) by simp
  show "sin (3 / 10 :: real) * sin (1 / 10) - cos (3 / 10) * sin (1 / 5) * cos (1 / 10) \<le> - 159341 / 10 ^ 6"
    using ss(2) csc(1) by simp
qed

text \<open>
  Claim C6, as stated: for X-Y-Z and the angles \<open>(0.1, 0.2, 0.3)\<close> row 0 of the matrix is
  approximately \<open>(0.9363, 0.2896, -0.1987)\<close>. This fails: the entries of row 0 at columns
  1 and 2 are more than 0.02 and 0.03 away from these values.
\<close>

theorem scenario_counterexample:
  "2 / 100 < \<bar>el (fst (compute_matrix_from_euler_angles EulerXYZ (1 / 10, 1 / 5, 3 / 10)
                       (Matrix3x3_initialize, []))) 0 1 - 2896 / 10 ^ 4\<bar>
   \<and> 3 / 100 < \<bar>el (fst (compute_matrix_from_euler_angles EulerXYZ (1 / 10, 1 / 5, 3 / 10)
                       (Matrix3x3_initialize, []))) 0 2 - (- 1987 / 10 ^ 4)\<bar>"
proof -
  note b = scenario_row0_bounds
  have r1: "2 / 100 < \<bar>x - 2896 / 10 ^ 4\<bar>" if "312989 / 10 ^ 6 \<le> x" for x :: real
    using that by (simp add: abs_if)
  have r2: "3 / 100 < \<bar>x - (- 1987 / 10 ^ 4)\<bar>" if "- 159349 / 10 ^ 6 \<le> x" for x :: real
    using that by (simp add: abs_if)
  show ?thesis
    unfolding EulerXYZ_def row0_XYZ using r1 [OF b(3)] r2 [OF b(5)] by (intro conjI)
qed

text \<open>
  Claim C6, amended: for X-Y-Z and the angles \<open>(0.1, 0.2, 0.3)\<close> row 0 of the matrix is
  \<open>(0.9363, 0.3130, -0.1593)\<close> to within \<open>5e-5\<close>, and the extraction applied to that matrix
  returns \<open>(0.1, 0.2, 0.3)\<close> exactly (over the reals).
\<close>

theorem scenario_XYZ:
  "\<bar>el (fst (compute_matrix_from_euler_angles EulerXYZ (1 / 10, 1 / 5, 3 / 10) (m0, msgs))) 0 0
      - 9363 / 10 ^ 4\<bar> < 5 / 10 ^ 5
   \<and> \<bar>el (fst (compute_matrix_from_euler_angles EulerXYZ (1 / 10, 1 / 5, 3 / 10) (m0, msgs))) 0 1
      - 3130 / 10 ^ 4\<bar> < 5 / 10 ^ 5
   \<and> \<bar>el (fst (compute_matrix_from_euler_angles EulerXYZ (1 / 10, 1 / 5, 3 / 10) (m0, msgs))) 0 2
      - (- 1593 / 10 ^ 4)\<bar> < 5 / 10 ^ 5
   \<and> fst (compute_euler_angles_from_matrix
            (fst (compute_matrix_from_euler_angles EulerXYZ (1 / 10, 1 / 5, 3 / 10) (m0, msgs)))
            EulerXYZ (out, msgs'))
       = (1 / 10, 1 / 5, 3 / 10)"
proof -
  note b = scenario_row0_bounds
  have r0: "\<bar>x - 9363 / 10 ^ 4\<bar> < 5 / 10 ^ 5"
    if "936292 / 10 ^ 6 \<le> x" "x \<le> 936295 / 10 ^ 6" for x :: real
    using that by (simp add: abs_less_iff)
  have r1: "\<bar>x - 3130 / 10 ^ 4\<bar> < 5 / 10 ^ 5"
    if "312989 / 10 ^ 6 \<le> x" "x \<le> 312995 / 10 ^ 6" for x :: real
    using that by (simp add: abs_less_iff)
  have r2: "\<bar>x - (- 1593 / 10 ^ 4)\<bar> < 5 / 10 ^ 5"
    if "- 159349 / 10 ^ 6 \<le> x" "x \<le> - 159341 / 10 ^ 6" for x :: real
    using that by (simp add: abs_less_iff)
  have thr: "gimbal_lock_threshold < cos (1 / 5)"
    using trig_bounds(7) by (simp add: gimbal_lock_threshold_def)
  have "extract_angles (Euler_info_at 0)
          (fst (compute_matrix_from_euler_angles 0 (1 / 10, 1 / 5, 3 / 10) (m0, msgs)))
        = (1 / 10, 1 / 5, 3 / 10)"
    using pi_ge_two thr by (intro roundtrip_aero) simp_all
  then have e: "fst (compute_euler_angles_from_matrix
            (fst (compute_matrix_from_euler_angles 0 (1 / 10, 1 / 5, 3 / 10) (m0, msgs)))
            0 (out, msgs')) = (1 / 10, 1 / 5, 3 / 10)"
    by (simp add: compute_euler_angles_valid)
  show ?thesis
    unfolding EulerXYZ_def row0_XYZ
    using r0 [OF b(1,2)] r1 [OF b(3,4)] r2 [OF b(5,6)] e by (intro conjI)
qed

end
